theory Spec2Isabelle
  imports Complex_Main
begin

section \<open>Strings and numbers of the runtime\<close>

text \<open>
  A JavaScript string is a sequence of UTF-16 code units; a code unit is modelled as a
  natural number, so that every character the rule tables mention (among them the
  non-Latin units of the bullet glyphs) can be written down. \<open>js\<close> turns an ASCII
  literal into such a sequence. JavaScript numbers are modelled as exact rationals:
  arithmetic is exact where the runtime rounds to a double, and there is no NaN or
  Infinity (the one division whose divisor can be zero is written out where it occurs).
\<close>

type_synonym cu = nat
type_synonym jstring = "cu list"

definition js :: "string \<Rightarrow> jstring" where
  "js s = map of_char s"

definition isDigit :: "cu \<Rightarrow> bool" where
  "isDigit c \<longleftrightarrow> 48 \<le> c \<and> c \<le> 57"

text \<open>The class \<open>\w\<close>: ASCII letters, digits and the underscore.\<close>

definition isWordChar :: "cu \<Rightarrow> bool" where
  "isWordChar c \<longleftrightarrow>
     (97 \<le> c \<and> c \<le> 122) \<or> (65 \<le> c \<and> c \<le> 90) \<or> isDigit c \<or> c = 95"

definition isLineTerminator :: "cu \<Rightarrow> bool" where
  "isLineTerminator c \<longleftrightarrow> c = 10 \<or> c = 13 \<or> c = 8232 \<or> c = 8233"

text \<open>
  The class \<open>\s\<close>, which is also what \<open>trim\<close> strips: the white space and line
  terminator code units of ECMAScript.
\<close>

definition isSpace :: "cu \<Rightarrow> bool" where
  "isSpace c \<longleftrightarrow>
     c = 32 \<or> (9 \<le> c \<and> c \<le> 13) \<or> c = 160 \<or> c = 5760 \<or>
     (8192 \<le> c \<and> c \<le> 8202) \<or> c = 8232 \<or> c = 8233 \<or> c = 8239 \<or> c = 8287 \<or>
     c = 12288 \<or> c = 65279"

text \<open>
  \<open>toLowerCase\<close> and \<open>toUpperCase\<close> are written out for the code units U+0000 to
  U+00FF. Units above that range are left as they are: the Unicode case tables of the
  runtime are not part of the repository. The statements below that hold for every
  string do not depend on the case of any unit; the ones about a concrete post are about
  ASCII text.
\<close>

definition lowerUnit :: "cu \<Rightarrow> cu" where
  "lowerUnit c =
     (if (65 \<le> c \<and> c \<le> 90) \<or> (192 \<le> c \<and> c \<le> 222 \<and> c \<noteq> 215) then c + 32 else c)"

definition toLowerCase :: "jstring \<Rightarrow> jstring" where
  "toLowerCase s = map lowerUnit s"

definition upperUnit :: "cu \<Rightarrow> jstring" where
  "upperUnit c =
     (if (97 \<le> c \<and> c \<le> 122) \<or> (224 \<le> c \<and> c \<le> 254 \<and> c \<noteq> 247) then [c - 32]
      else if c = 223 then [83, 83]
      else if c = 181 then [924]
      else if c = 255 then [376]
      else [c])"

definition toUpperCase :: "jstring \<Rightarrow> jstring" where
  "toUpperCase s = concat (map upperUnit s)"

definition trim :: "jstring \<Rightarrow> jstring" where
  "trim s = rev (dropWhile isSpace (rev (dropWhile isSpace s)))"

fun startsWith :: "jstring \<Rightarrow> jstring \<Rightarrow> bool" where
  "startsWith s [] = True"
| "startsWith [] (t # ts) = False"
| "startsWith (c # cs) (t # ts) = (c = t \<and> startsWith cs ts)"

definition endsWith :: "jstring \<Rightarrow> jstring \<Rightarrow> bool" where
  "endsWith s t = startsWith (rev s) (rev t)"

fun str_includes :: "jstring \<Rightarrow> jstring \<Rightarrow> bool" where
  "str_includes [] t = (t = [])"
| "str_includes (c # cs) t = (startsWith (c # cs) t \<or> str_includes cs t)"

fun join :: "jstring \<Rightarrow> jstring list \<Rightarrow> jstring" where
  "join sep [] = []"
| "join sep [x] = x"
| "join sep (x # y # ys) = x @ sep @ join sep (y # ys)"

text \<open>\<open>s.split(c)\<close> for a one-character separator; the empty string gives one empty piece.\<close>

fun split_char :: "cu \<Rightarrow> jstring \<Rightarrow> jstring list" where
  "split_char sep [] = [[]]"
| "split_char sep (c # cs) =
     (if c = sep then [] # split_char sep cs
      else (case split_char sep cs of [] \<Rightarrow> [[c]] | x # xs \<Rightarrow> (c # x) # xs))"

text \<open>\<open>[...new Set(xs)]\<close>: the first occurrence of each element, in order.\<close>

definition uniq :: "'a list \<Rightarrow> 'a list" where
  "uniq xs = rev (remdups (rev xs))"

text \<open>\<open>Math.round\<close>: the nearest integer, a half rounding up.\<close>

definition math_round :: "rat \<Rightarrow> rat" where
  "math_round x = of_int \<lfloor>x + 1 / 2\<rfloor>"

text \<open>Decimal digits of a number, for template strings.\<close>

fun digits_fuel :: "nat \<Rightarrow> nat \<Rightarrow> jstring" where
  "digits_fuel 0 n = []"
| "digits_fuel (Suc k) n =
     (if n < 10 then [48 + n] else digits_fuel k (n div 10) @ [48 + n mod 10])"

definition show_nat :: "nat \<Rightarrow> jstring" where
  "show_nat n = digits_fuel (Suc n) n"

section \<open>Regular expressions\<close>

text \<open>
  The patterns of the source are values of \<open>re\<close>; \<open>step\<close> is a backtracking matcher in
  the order of ECMAScript: it returns, most preferred first, every position at which a
  match of the pattern that starts at the given position can end. A position is the
  code unit before it (\<open>None\<close> at the start of the input) and the rest of the input.
  Alternatives are tried left to right and \<open>*\<close> is greedy; an iteration of \<open>*\<close> that
  consumes nothing is rejected, as the runtime does.
\<close>

record flags =
  ignoreCase :: bool
  multiline :: bool
  dotAll :: bool
  unicode :: bool

datatype cset = CDigit | CWord | CSpace | CAny | COneOf "cu list" | CRange cu cu | CNot cset

datatype re = Chars jstring | Cls cset | Seq re re | Alt re re | Star re | Bol | Eol | WordB

type_synonym regex = "flags \<times> re"

type_synonym pos = "cu option \<times> jstring"

text \<open>
  Canonicalize of the \<open>i\<close> flag: the upper-case form of a unit when that is one unit,
  and never an ASCII unit for a non-ASCII one. It is written out for U+0000 to U+00FF
  and U+03BC; these are all the units whose canonical form is that of a character
  occurring in a pattern with the \<open>i\<close> flag.
\<close>

definition canonicalize :: "cu \<Rightarrow> cu" where
  "canonicalize c =
     (if 97 \<le> c \<and> c \<le> 122 then c - 32
      else if 224 \<le> c \<and> c \<le> 254 \<and> c \<noteq> 247 then c - 32
      else if c = 255 then 376
      else if c = 181 \<or> c = 956 then 924
      else c)"

fun cset_mem :: "flags \<Rightarrow> cset \<Rightarrow> cu \<Rightarrow> bool" where
  "cset_mem fl CDigit c = isDigit c"
| "cset_mem fl CWord c = isWordChar c"
| "cset_mem fl CSpace c = isSpace c"
| "cset_mem fl CAny c = (dotAll fl \<or> \<not> isLineTerminator c)"
| "cset_mem fl (COneOf cs) c =
     (if ignoreCase fl then list_ex (\<lambda>a. canonicalize a = canonicalize c) cs
      else list_ex (\<lambda>a. a = c) cs)"
| "cset_mem fl (CRange lo hi) c =
     (if ignoreCase fl then list_ex (\<lambda>a. canonicalize a = canonicalize c) [lo ..< Suc hi]
      else lo \<le> c \<and> c \<le> hi)"
| "cset_mem fl (CNot cs) c = (\<not> cset_mem fl cs c)"

fun strip :: "flags \<Rightarrow> jstring \<Rightarrow> pos \<Rightarrow> pos option" where
  "strip fl [] q = Some q"
| "strip fl (a # as) (p, []) = None"
| "strip fl (a # as) (p, c # cs) =
     (if (if ignoreCase fl then canonicalize a = canonicalize c else a = c)
      then strip fl as (Some c, cs) else None)"

definition isHigh :: "cu \<Rightarrow> bool" where
  "isHigh c \<longleftrightarrow> 55296 \<le> c \<and> c \<le> 56319"

definition isLow :: "cu \<Rightarrow> bool" where
  "isLow c \<longleftrightarrow> 56320 \<le> c \<and> c \<le> 57343"

text \<open>
  The next character and the position after it. With the \<open>u\<close> flag a surrogate pair
  is one character, its code point.
\<close>

fun next_cp :: "bool \<Rightarrow> jstring \<Rightarrow> (nat \<times> pos) option" where
  "next_cp u [] = None"
| "next_cp u [c] = Some (c, (Some c, []))"
| "next_cp u (c # d # ds) =
     (if u \<and> isHigh c \<and> isLow d
      then Some ((c - 55296) * 1024 + (d - 56320) + 65536, (Some d, ds))
      else Some (c, (Some c, d # ds)))"

definition wordAt :: "cu option \<Rightarrow> bool" where
  "wordAt p = (case p of None \<Rightarrow> False | Some c \<Rightarrow> isWordChar c)"

definition peek :: "jstring \<Rightarrow> cu option" where
  "peek s = (case s of [] \<Rightarrow> None | c # _ \<Rightarrow> Some c)"

fun step :: "flags \<Rightarrow> re \<Rightarrow> pos \<Rightarrow> pos list" where
  "step fl (Chars lit) q = (case strip fl lit q of None \<Rightarrow> [] | Some q' \<Rightarrow> [q'])"
| "step fl (Cls cs) (p, s) =
     (case next_cp (unicode fl) s of None \<Rightarrow> []
      | Some (c, q') \<Rightarrow> if cset_mem fl cs c then [q'] else [])"
| "step fl (Seq a b) q = concat (map (step fl b) (step fl a q))"
| "step fl (Alt a b) q = step fl a q @ step fl b q"
| "step fl (Star a) (p, s) =
     concat (map (\<lambda>q'. if length (snd q') < length s then step fl (Star a) q' else [])
                 (step fl a (p, s))) @ [(p, s)]"
| "step fl Bol (p, s) =
     (if p = None \<or> (multiline fl \<and> (case p of None \<Rightarrow> False | Some c \<Rightarrow> isLineTerminator c))
      then [(p, s)] else [])"
| "step fl Eol (p, s) =
     (if s = [] \<or> (multiline fl \<and> (case s of [] \<Rightarrow> False | c # _ \<Rightarrow> isLineTerminator c))
      then [(p, s)] else [])"
| "step fl WordB (p, s) = (if wordAt p \<noteq> wordAt (peek s) then [(p, s)] else [])"

record rmatch =
  m_index :: nat
  m_text :: jstring
  m_after :: pos

text \<open>
  The leftmost match at or after a position: \<open>m_index\<close> counts from the position the
  search was started with index \<open>i\<close>.
\<close>

fun search :: "flags \<Rightarrow> re \<Rightarrow> pos \<Rightarrow> nat \<Rightarrow> rmatch option" where
  "search fl r (p, []) i =
     (case step fl r (p, []) of [] \<Rightarrow> None
      | q # _ \<Rightarrow> Some \<lparr>m_index = i, m_text = [], m_after = q\<rparr>)"
| "search fl r (p, [c]) i =
     (case step fl r (p, [c]) of [] \<Rightarrow> search fl r (Some c, []) (i + 1)
      | q # _ \<Rightarrow> Some \<lparr>m_index = i, m_text = take (1 - length (snd q)) [c], m_after = q\<rparr>)"
| "search fl r (p, c # d # ds) i =
     (case step fl r (p, c # d # ds) of
        [] \<Rightarrow> if unicode fl \<and> isHigh c \<and> isLow d then search fl r (Some d, ds) (i + 2)
              else search fl r (Some c, d # ds) (i + 1)
      | q # _ \<Rightarrow> Some \<lparr>m_index = i,
           m_text = take (length (c # d # ds) - length (snd q)) (c # d # ds), m_after = q\<rparr>)"

text \<open>\<open>s.match(r)\<close> for a pattern without the \<open>g\<close> flag, and \<open>r.test(s)\<close>.\<close>

definition re_match :: "regex \<Rightarrow> jstring \<Rightarrow> rmatch option" where
  "re_match rx s = search (fst rx) (snd rx) (None, s) 0"

definition re_test :: "regex \<Rightarrow> jstring \<Rightarrow> bool" where
  "re_test rx s = (re_match rx s \<noteq> None)"

text \<open>
  \<open>s.match(r) || []\<close> for a pattern with the \<open>g\<close> flag: the texts of the successive
  matches, each search starting where the previous match ended (one character further
  after an empty match). The length tests only make the recursion visibly terminating:
  a match never ends before the position it started at.
\<close>

function match_all :: "flags \<Rightarrow> re \<Rightarrow> pos \<Rightarrow> jstring list" where
  "match_all fl r (p, s) =
     (case search fl r (p, s) 0 of None \<Rightarrow> []
      | Some m \<Rightarrow> m_text m #
          (if m_text m \<noteq> [] then
             (if length (snd (m_after m)) < length s then match_all fl r (m_after m) else [])
           else (case next_cp (unicode fl) (snd (m_after m)) of None \<Rightarrow> []
                 | Some (c, q) \<Rightarrow> if length (snd q) < length s then match_all fl r q else [])))"
  by pat_completeness auto
termination
  by (relation "measure (\<lambda>(fl, r, q). length (snd q))") auto

definition re_match_all :: "regex \<Rightarrow> jstring \<Rightarrow> jstring list" where
  "re_match_all rx s = match_all (fst rx) (snd rx) (None, s)"

text \<open>
  \<open>s.split(r)\<close>: the pattern is tried at every position of a non-empty input; a match
  closes the current piece, unless it is an empty match at the start of the piece.
\<close>

function split_loop :: "flags \<Rightarrow> re \<Rightarrow> jstring \<Rightarrow> pos \<Rightarrow> jstring list" where
  "split_loop fl r acc (p, []) = [rev acc]"
| "split_loop fl r acc (p, c # cs) =
     (case step fl r (p, c # cs) of
        [] \<Rightarrow> split_loop fl r (c # acc) (Some c, cs)
      | q # _ \<Rightarrow>
          if length (snd q) < length (c # cs) then rev acc # split_loop fl r [] q
          else if acc \<noteq> [] then rev acc # split_loop fl r [] (p, c # cs)
          else split_loop fl r (c # acc) (Some c, cs))"
  by pat_completeness auto
termination
  by (relation "measures [\<lambda>(fl, r, acc, q). length (snd q), \<lambda>(fl, r, acc, q). length acc]") auto

definition re_split :: "regex \<Rightarrow> jstring \<Rightarrow> jstring list" where
  "re_split rx s =
     (if s = [] then (if step (fst rx) (snd rx) (None, []) = [] then [[]] else [])
      else split_loop (fst rx) (snd rx) [] (None, s))"

subsection \<open>Writing patterns\<close>

definition plus_re :: "re \<Rightarrow> re" where
  "plus_re r = Seq r (Star r)"

definition opt_re :: "re \<Rightarrow> re" where
  "opt_re r = Alt r (Chars [])"

definition str :: "string \<Rightarrow> re" where
  "str w = Chars (js w)"

fun seqs :: "re list \<Rightarrow> re" where
  "seqs [] = Chars []"
| "seqs [r] = r"
| "seqs (r # rs) = Seq r (seqs rs)"

fun alts :: "re list \<Rightarrow> re" where
  "alts [] = Cls (COneOf [])"
| "alts [r] = r"
| "alts (r # rs) = Alt r (alts rs)"

definition lits :: "string list \<Rightarrow> re" where
  "lits ws = alts (map str ws)"

definition digit :: re where
  "digit = Cls CDigit"

definition anything :: re where
  "anything = Star (Cls CAny)"

definition no_flags :: flags where
  "no_flags = \<lparr>ignoreCase = False, multiline = False, dotAll = False, unicode = False\<rparr>"

definition fl_i :: flags where
  "fl_i = no_flags\<lparr>ignoreCase := True\<rparr>"

definition fl_m :: flags where
  "fl_m = no_flags\<lparr>multiline := True\<rparr>"

definition fl_is :: flags where
  "fl_is = no_flags\<lparr>ignoreCase := True, dotAll := True\<rparr>"

definition fl_u :: flags where
  "fl_u = no_flags\<lparr>unicode := True\<rparr>"

section \<open>Data model\<close>

datatype Platform = linkedin | twitter

datatype HookType = QUESTION | BOLD_STATEMENT | STORY | LIST | CONTROVERSIAL_TAKE
  | STATISTIC | QUOTE | HOW_TO | NONE_hook

datatype BodyType = PROBLEM_SOLUTION | STORY_DRIVEN | LISTICLE | TUTORIAL | INSIGHT_SHARING
  | COMPARISON | MYTH_BUSTING | LESSON_LEARNED | THREAD | NARRATIVE

datatype CTAType = QUESTION_TO_AUDIENCE | LINK | ENGAGEMENT_BAIT | FOLLOW_UP | SAVE_FOR_LATER
  | SHARE | COMMENT_PROMPT | NONE_cta

datatype EmotionalTrigger = CURIOSITY | FEAR | EXCITEMENT | VALIDATION | SURPRISE | ANGER
  | NOSTALGIA | INSPIRATION | FRUSTRATION | HOPE | URGENCY | FOMO

text \<open>The string values of the enums and of the platform type.\<close>

fun platformValue :: "Platform \<Rightarrow> jstring" where
  "platformValue linkedin = js ''linkedin''"
| "platformValue twitter = js ''twitter''"

fun hookValue :: "HookType \<Rightarrow> jstring" where
  "hookValue QUESTION = js ''question''"
| "hookValue BOLD_STATEMENT = js ''bold_statement''"
| "hookValue STORY = js ''story''"
| "hookValue LIST = js ''list''"
| "hookValue CONTROVERSIAL_TAKE = js ''controversial_take''"
| "hookValue STATISTIC = js ''statistic''"
| "hookValue QUOTE = js ''quote''"
| "hookValue HOW_TO = js ''how_to''"
| "hookValue NONE_hook = js ''none''"

fun bodyValue :: "BodyType \<Rightarrow> jstring" where
  "bodyValue PROBLEM_SOLUTION = js ''problem_solution''"
| "bodyValue STORY_DRIVEN = js ''story_driven''"
| "bodyValue LISTICLE = js ''listicle''"
| "bodyValue TUTORIAL = js ''tutorial''"
| "bodyValue INSIGHT_SHARING = js ''insight_sharing''"
| "bodyValue COMPARISON = js ''comparison''"
| "bodyValue MYTH_BUSTING = js ''myth_busting''"
| "bodyValue LESSON_LEARNED = js ''lesson_learned''"
| "bodyValue THREAD = js ''thread''"
| "bodyValue NARRATIVE = js ''narrative''"

fun ctaValue :: "CTAType \<Rightarrow> jstring" where
  "ctaValue QUESTION_TO_AUDIENCE = js ''question_to_audience''"
| "ctaValue LINK = js ''link''"
| "ctaValue ENGAGEMENT_BAIT = js ''engagement_bait''"
| "ctaValue FOLLOW_UP = js ''follow_up''"
| "ctaValue SAVE_FOR_LATER = js ''save_for_later''"
| "ctaValue SHARE = js ''share''"
| "ctaValue COMMENT_PROMPT = js ''comment_prompt''"
| "ctaValue NONE_cta = js ''none''"

fun triggerValue :: "EmotionalTrigger \<Rightarrow> jstring" where
  "triggerValue CURIOSITY = js ''curiosity''"
| "triggerValue FEAR = js ''fear''"
| "triggerValue EXCITEMENT = js ''excitement''"
| "triggerValue VALIDATION = js ''validation''"
| "triggerValue SURPRISE = js ''surprise''"
| "triggerValue ANGER = js ''anger''"
| "triggerValue NOSTALGIA = js ''nostalgia''"
| "triggerValue INSPIRATION = js ''inspiration''"
| "triggerValue FRUSTRATION = js ''frustration''"
| "triggerValue HOPE = js ''hope''"
| "triggerValue URGENCY = js ''urgency''"
| "triggerValue FOMO = js ''fomo''"

record PostMetrics =
  likes :: rat
  comments :: rat
  shares :: rat
  saves :: "rat option"
  impressions :: "rat option"
  engagementRate :: "rat option"

record ViralPost =
  post_id :: jstring
  platform :: Platform
  content :: jstring
  author :: "jstring option"
  url :: "jstring option"
  metrics :: PostMetrics
  createdAt :: jstring
  analyzedAt :: "jstring option"

record LineBreakStructure =
  totalLineBreaks :: int
  averageLineLength :: rat
  shortLines :: nat
  mediumLines :: nat
  longLines :: nat
  hasDoubleLineBreaks :: bool

text \<open>
  \<open>ParsedContent\<close> without its field \<open>capitalizationPatterns\<close>, which is read only
  by the readability indicator and the format-element list; neither feeds the
  classifier, the virality score or the format store.
\<close>

record ParsedContent =
  original :: jstring
  lines :: "jstring list"
  paragraphs :: "jstring list"
  wordCount :: nat
  characterCount :: nat
  hasEmoji :: bool
  emojiCount :: nat
  hasHashtags :: bool
  hashtags :: "jstring list"
  hasMentions :: bool
  mentions :: "jstring list"
  hasLinks :: bool
  links :: "jstring list"
  hasNumbers :: bool
  numbers :: "jstring list"
  lineBreakStructure :: LineBreakStructure

record DetectedFormatPattern =
  hookType :: HookType
  hookConfidence :: rat
  hookText :: jstring
  bodyType :: BodyType
  bodyConfidence :: rat
  bodyStructure :: jstring
  ctaType :: CTAType
  ctaConfidence :: rat
  ctaText :: jstring

text \<open>
  Of \<open>ViralSignals\<close> only the emotional triggers are kept, and of \<open>AnalysisResult\<close>
  the post id, the score, the format pattern and the signals: the other fields are
  reports that no function below reads.
\<close>

record ViralSignals =
  emotionalTriggers :: "EmotionalTrigger list"

record AnalysisResult =
  postId :: jstring
  viralityScore :: rat
  formatPattern :: DetectedFormatPattern
  viralSignals :: ViralSignals

record FormatPattern =
  fp_id :: jstring
  fp_name :: jstring
  fp_description :: jstring
  fp_platform :: Platform
  fp_hookType :: HookType
  fp_bodyType :: BodyType
  fp_ctaType :: CTAType
  fp_template :: jstring
  fp_examplePost :: jstring
  fp_tags :: "jstring list"
  effectivenessScore :: rat
  usageCount :: rat
  fp_createdAt :: jstring
  fp_updatedAt :: jstring

section \<open>Content parser\<close>

definition emojiRegex :: regex where
  "emojiRegex =
     (fl_u, alts [Cls (CRange 0x1F300 0x1F9FF), Cls (CRange 0x2600 0x26FF),
                  Cls (CRange 0x2700 0x27BF)])"

definition hashtagRegex :: regex where
  "hashtagRegex = (no_flags, Seq (str ''#'') (plus_re (Cls CWord)))"

definition mentionRegex :: regex where
  "mentionRegex = (no_flags, Seq (str ''@'') (plus_re (Cls CWord)))"

definition urlRegex :: regex where
  "urlRegex =
     (no_flags, seqs [str ''http'', opt_re (str ''s''), str ''://'', plus_re (Cls (CNot CSpace))])"

definition numberRegex :: regex where
  "numberRegex =
     (no_flags, seqs [WordB, plus_re digit, Star (seqs [str '','', digit, digit, digit]),
                      opt_re (Seq (str ''.'') (plus_re digit)), opt_re (str ''%''), WordB])"

definition paragraphSplit :: regex where
  "paragraphSplit = (no_flags, seqs [Chars [10], Star (Cls CSpace), Chars [10]])"

definition wordSplit :: regex where
  "wordSplit = (no_flags, plus_re (Cls CSpace))"

definition analyzeLineBreaks :: "jstring list \<Rightarrow> LineBreakStructure" where
  "analyzeLineBreaks ls =
     (let lengths = map length ls;
          avgLength = (if length lengths > 0
                       then of_nat (sum_list lengths) / of_nat (length lengths) else 0)
      in \<lparr>totalLineBreaks = int (length ls) - 1,
          averageLineLength = math_round avgLength,
          shortLines = length (filter (\<lambda>l. l < 30) lengths),
          mediumLines = length (filter (\<lambda>l. l \<ge> 30 \<and> l < 100) lengths),
          longLines = length (filter (\<lambda>l. l \<ge> 100) lengths),
          hasDoubleLineBreaks = list_ex (\<lambda>l. length (trim l) = 0) ls\<rparr>)"

definition parsePostContent :: "jstring \<Rightarrow> ParsedContent" where
  "parsePostContent c =
     (let ls = filter (\<lambda>line. length (trim line) > 0) (split_char 10 c);
          ps = filter (\<lambda>p. length (trim p) > 0) (re_split paragraphSplit c);
          ws = filter (\<lambda>w. length w > 0) (re_split wordSplit c);
          emojis = re_match_all emojiRegex c;
          hs = re_match_all hashtagRegex c;
          ms = re_match_all mentionRegex c;
          us = re_match_all urlRegex c;
          ns = re_match_all numberRegex c
      in \<lparr>original = c,
          lines = ls,
          paragraphs = ps,
          wordCount = length ws,
          characterCount = length c,
          hasEmoji = (length emojis > 0),
          emojiCount = length emojis,
          hasHashtags = (length hs > 0),
          hashtags = hs,
          hasMentions = (length ms > 0),
          mentions = ms,
          hasLinks = (length us > 0),
          links = us,
          hasNumbers = (length ns > 0),
          numbers = ns,
          lineBreakStructure = analyzeLineBreaks ls\<rparr>)"

section \<open>Pattern classifier\<close>

subsection \<open>Rule tables\<close>

text \<open>
  The tables are lists in the order in which \<open>Object.entries\<close> enumerates the
  source's objects, which is the order in which they are written.
\<close>

definition ri :: "re \<Rightarrow> regex" where
  "ri r = (fl_i, r)"

definition wb :: "re \<Rightarrow> re" where
  "wb r = seqs [WordB, r, WordB]"

definition questionMarkAtEnd :: regex where
  "questionMarkAtEnd = (no_flags, Seq (str ''?'') Eol)"

definition HOOK_PATTERNS :: "(HookType \<times> regex list) list" where
  "HOOK_PATTERNS =
   [(QUESTION,
      [ri (Seq Bol (lits [''what'', ''why'', ''how'', ''when'', ''where'', ''who'', ''which'',
          ''do you'', ''did you'', ''have you'', ''are you'', ''is your'', ''would you'',
          ''could you''])),
       questionMarkAtEnd,
       ri (Seq Bol (lits [''ever wondered'', ''have you ever'', ''did you know'']))]),
    (BOLD_STATEMENT,
      [ri (Seq Bol (lits [''this is'', ''here's the truth'', ''let me be clear'', ''i'll say it'',
          ''the truth is'', ''here's what nobody tells you''])),
       ri (Seq Bol (lits [''stop'', ''don't'', ''never'', ''always'', ''everyone'', ''nobody'',
          ''nothing'', ''everything''])),
       ri (wb (lits [''unpopular opinion'', ''hot take'', ''controversial opinion'']))]),
    (STORY,
      [ri (Seq Bol (lits [''so'', ''i was'', ''last week'', ''yesterday'', ''a few years ago'',
          ''when i started'', ''back in'', ''my journey''])),
       ri (Seq Bol (lits [''story time'', ''let me tell you'', ''here's a story''])),
       ri (wb (lits [''my story'', ''this changed everything'', ''turning point'']))]),
    (LIST,
      [ri (seqs [Bol, plus_re digit, plus_re (Cls CSpace),
          lits [''ways'', ''things'', ''reasons'', ''tips'', ''secrets'', ''mistakes'',
                ''lessons'', ''habits'', ''books'', ''tools'', ''apps'']]),
       ri (Seq Bol (alts [str ''here are'', Seq (str ''here's '') (plus_re digit),
          Seq (str ''top '') (plus_re digit), Seq (str ''best '') (plus_re digit),
          Seq (plus_re digit) (str '' of the'')])),
       ri (wb (lits [''step by step'', ''checklist'']))]),
    (CONTROVERSIAL_TAKE,
      [ri (Seq Bol (lits [''unpopular opinion'', ''hot take'', ''controversial'',
          ''i'll probably get hate'', ''this might upset''])),
       ri (wb (lits [''is overrated'', ''is underrated'', ''everyone is wrong'',
          ''the industry is'', ''nobody talks about''])),
       ri (wb (lits [''gatekeep'', ''red flag'', ''toxic'', ''problematic'']))]),
    (STATISTIC,
      [ri (Seq Bol (alts [Seq (plus_re digit) (str ''%''), str ''according to'',
          str ''studies show'', str ''research shows'', str ''data shows'',
          str ''statistics show''])),
       ri (Seq WordB (alts [seqs [str ''in '', plus_re digit, str '' years''],
          Seq (str ''by '') (plus_re digit), seqs [str ''only '', plus_re digit, str ''%''],
          Seq (str ''more than '') (plus_re digit)])),
       ri (wb (lits [''million'', ''billion'', ''trillion'']))]),
    (QUOTE,
      [ri (alts [Seq Bol (Cls (COneOf [34, 39])),
          seqs [Bol, plus_re (Cls CWord), plus_re (Cls CSpace), str ''once'',
                plus_re (Cls CSpace), str ''said''],
          Seq Bol (alts [str ''as '', Chars [34], Chars [8220]])]),
       ri (wb (lits [''said it best'', ''famous words'', ''wisdom from'']))]),
    (HOW_TO,
      [ri (Seq Bol (lits [''how to'', ''how i'', ''how you can'', ''how we'',
          ''the complete guide'', ''ultimate guide'', ''step-by-step''])),
       ri (wb (lits [''learn to'', ''mastering'', ''guide to'', ''roadmap to'']))]),
    (NONE_hook, [])]"

text \<open>
  The bullet glyphs of the body patterns stand in the source as the code units written
  here (U+00E2 followed by two further units).
\<close>

definition bullet1 :: jstring where "bullet1 = [0xE2, 0x20AC, 0xA2]"
definition bullet2 :: jstring where "bullet2 = [0xE2, 0x2020, 0x2019]"
definition bullet3 :: jstring where "bullet3 = [0xE2, 0x153, 0x201C]"
definition bullet4 :: jstring where "bullet4 = [0xE2, 0x153, 0x2014]"
definition bullet5 :: jstring where "bullet5 = [0xE2, 0x2013, 0xB8]"

definition BODY_PATTERNS :: "(BodyType \<times> regex list \<times> string list) list" where
  "BODY_PATTERNS =
   [(PROBLEM_SOLUTION,
      [(fl_is, seqs [WordB, lits [''problem'', ''issue'', ''challenge'', ''struggle'', ''pain point''],
          WordB, anything, WordB, lits [''solution'', ''fix'', ''answer'', ''resolve'', ''solve''],
          WordB]),
       ri (seqs [WordB, str ''here's how '', opt_re (lits [''i '', ''we '', ''you '']),
          lits [''solved'', ''fixed'', ''overcame'']]),
       ri (wb (lits [''the fix'', ''the solution'', ''what worked'']))],
      [''problem-solution'', ''challenge-overcome'', ''struggle-resolution'']),
    (STORY_DRIVEN,
      [ri (Seq Bol (lits [''so'', ''i was'', ''when i'', ''my journey'', ''my story''])),
       ri (wb (lits [''then one day'', ''that's when'', ''fast forward'', ''years later''])),
       ri (wb (lits [''the turning point'', ''everything changed'', ''this moment'']))],
      [''narrative'', ''personal-experience'', ''chronological'']),
    (LISTICLE,
      [(fl_m, Seq Bol (alts [Seq (plus_re digit) (str ''.''), str ''1.'', Chars bullet1,
          str ''-'', Chars bullet2])),
       (fl_m, seqs [Chars [10], plus_re digit, str ''.'']),
       (fl_m, Seq (Chars [10]) (alts [Chars bullet1, str ''-'', Chars bullet2, Chars bullet3,
          Chars bullet4, Chars bullet5]))],
      [''numbered-list'', ''bullet-points'', ''enumerated-items'']),
    (TUTORIAL,
      [ri (wb (alts [Seq (str ''step '') (plus_re digit), str ''first'', str ''then'',
          str ''next'', str ''finally'', str ''lastly''])),
       ri (wb (lits [''here's how'', ''follow these'', ''do this''])),
       ri (wb (lits [''tutorial'', ''guide'', ''walkthrough'']))],
      [''step-by-step'', ''instructional'', ''how-to'']),
    (INSIGHT_SHARING,
      [ri (wb (lits [''i learned'', ''i realized'', ''the key insight'', ''my biggest takeaway''])),
       ri (wb (lits [''here's what'', ''i discovered'', ''what i wish i knew''])),
       ri (wb (lits [''the secret'', ''the truth about'', ''reality is'']))],
      [''wisdom'', ''lesson'', ''insight'', ''realization'']),
    (COMPARISON,
      [ri (wb (alts [Seq (str ''vs'') (opt_re (str ''.'')), str ''versus'', str ''compared to'',
          str ''instead of'', str ''rather than''])),
       ri (wb (lits [''the difference between'', ''this vs that''])),
       ri (wb (lits [''while'', ''whereas'', ''on the other hand'']))],
      [''comparison'', ''contrast'', ''versus'']),
    (MYTH_BUSTING,
      [ri (wb (lits [''myth'', ''misconception'', ''wrong about'', ''false'', ''lie'', ''believe''])),
       ri (wb (lits [''don't believe'', ''stop believing'', ''the truth about'', ''debunking''])),
       ri (wb (lits [''actually'', ''in reality'', ''the reality is'']))],
      [''myth'', ''misconception'', ''debunking'', ''truth-reveal'']),
    (LESSON_LEARNED,
      [ri (wb (lits [''lesson'', ''learned'', ''mistake i made'', ''what i learned'',
          ''biggest lesson''])),
       ri (wb (lits [''if i could go back'', ''i wish i knew'', ''i would tell my younger''])),
       ri (wb (lits [''regret'', ''wish i had'', ''should have'']))],
      [''lesson'', ''mistake'', ''regret'', ''learning'']),
    (THREAD,
      [ri (wb (alts [str ''thread'', Chars [0xF0, 0x178, 0xA7, 0xB5], str ''a thread''])),
       (fl_m, seqs [Chars [10], plus_re digit, str ''/'', plus_re digit]),
       ri (wb (alts [Seq (str ''part '') (plus_re digit), str ''continued'',
          str ''follow for more'']))],
      [''thread'', ''series'', ''multi-part'']),
    (NARRATIVE,
      [ri (wb (lits [''once upon'', ''picture this'', ''imagine'', ''let me paint a picture''])),
       ri (wb (lits [''the story of'', ''this is the story'', ''tale of''])),
       ri (wb (lits [''it all started'', ''in the beginning'']))],
      [''narrative'', ''storytelling'', ''scenario''])]"

definition CTA_PATTERNS :: "(CTAType \<times> regex list) list" where
  "CTA_PATTERNS =
   [(QUESTION_TO_AUDIENCE,
      [questionMarkAtEnd,
       ri (seqs [WordB, lits [''what do you think'', ''your thoughts'', ''agree or disagree'',
          ''what's your'', ''how do you'', ''share your''], WordB, anything, str ''?'']),
       ri (seqs [WordB, lits [''let me know'', ''tell me'', ''comment below''], WordB, anything,
          str ''?''])]),
    (LINK,
      [(no_flags, seqs [str ''http'', opt_re (str ''s''), str ''://'']),
       ri (wb (lits [''link in bio'', ''check the link'', ''visit'', ''click here'',
          ''read more at''])),
       ri (seqs [WordB, lits [''link'', ''article'', ''blog'', ''podcast'', ''video''], WordB,
          anything, WordB, lits [''below'', ''here''], WordB])]),
    (ENGAGEMENT_BAIT,
      [ri (wb (lits [''like if'', ''comment'', ''share'', ''save'', ''follow'', ''subscribe'',
          ''retweet''])),
       ri (seqs [WordB, lits [''drop a'', ''leave a'', ''type'', ''drop your''], WordB, anything,
          WordB, lits [''comment'', ''below'', ''emoji'', ''reply''], WordB]),
       ri (wb (lits [''double tap'', ''hit that'', ''smash that'']))]),
    (FOLLOW_UP,
      [ri (wb (lits [''follow for'', ''stay tuned'', ''coming next'', ''tomorrow i'll'',
          ''next post''])),
       ri (wb (alts [str ''to be continued'', Seq (str ''part '') (plus_re digit),
          str ''more to come''])),
       ri (wb (lits [''turn on notifications'', ''enable notifications'']))]),
    (SAVE_FOR_LATER,
      [ri (wb (lits [''save this'', ''bookmark'', ''pin this'', ''save for later''])),
       ri (wb (lits [''save this post'', ''worth saving'', ''reference'']))]),
    (SHARE,
      [ri (wb (lits [''share this'', ''send this to'', ''tag someone'', ''forward this''])),
       ri (wb (lits [''this might help someone'', ''someone needs to hear this''])),
       ri (wb (lits [''repost'', ''retweet'', ''share with your'']))]),
    (COMMENT_PROMPT,
      [ri (seqs [WordB, lits [''comment'', ''reply'', ''drop'', ''type''], WordB, anything, WordB,
          alts [str ''below'', str ''your'', seqs [str ''a'', opt_re (str ''n''), str '' emoji'']],
          WordB]),
       ri (wb (lits [''starting a discussion'', ''let's discuss'', ''conversation starter''])),
       ri (wb (lits [''i want to hear from you'', ''tell me about'']))]),
    (NONE_cta, [])]"

definition EMOTIONAL_TRIGGER_WORDS :: "(EmotionalTrigger \<times> string list) list" where
  "EMOTIONAL_TRIGGER_WORDS =
   [(CURIOSITY, [''secret'', ''hidden'', ''nobody knows'', ''revealed'', ''discover'',
       ''find out'', ''you need to see'', ''must read'']),
    (FEAR, [''avoid'', ''danger'', ''warning'', ''careful'', ''don't make this mistake'',
       ''at risk'', ''losing'', ''scared'']),
    (EXCITEMENT, [''amazing'', ''incredible'', ''breakthrough'', ''revolutionary'',
       ''game-changer'', ''exciting'', ''thrilled'']),
    (VALIDATION, [''you're not alone'', ''it's okay'', ''normal'', ''everyone struggles'',
       ''you deserve'', ''your feelings'']),
    (SURPRISE, [''shocking'', ''unexpected'', ''you won't believe'', ''surprising'',
       ''never thought'', ''plot twist'']),
    (ANGER, [''outrageous'', ''unacceptable'', ''ridiculous'', ''angry'', ''frustrated'',
       ''unfair'', ''injustice'']),
    (NOSTALGIA, [''remember when'', ''back in the day'', ''used to'', ''growing up'',
       ''childhood'', ''the good old'']),
    (INSPIRATION, [''dream'', ''believe'', ''achieve'', ''success'', ''inspire'', ''motivate'',
       ''you can do it'', ''never give up'']),
    (FRUSTRATION, [''tired of'', ''sick of'', ''enough is enough'', ''frustrating'',
       ''annoying'', ''sick and tired'']),
    (HOPE, [''hope'', ''opportunity'', ''possible'', ''bright future'', ''looking forward'',
       ''optimistic'', ''better days'']),
    (URGENCY, [''now'', ''today'', ''immediately'', ''don't wait'', ''running out'',
       ''limited time'', ''before it's too late'']),
    (FOMO, [''everyone is'', ''don't miss'', ''last chance'', ''exclusive'', ''only'',
       '' spots left'', ''before everyone else''])]"

subsection \<open>Hook, body and call-to-action detection\<close>

record 't Detection =
  dtype :: 't
  confidence :: rat
  matchedText :: jstring

record BodyDetection =
  btype :: BodyType
  bconfidence :: rat
  bstructure :: jstring

text \<open>\<open>a.match(pattern) || b.match(pattern)\<close>\<close>

definition matchEither :: "regex \<Rightarrow> jstring \<Rightarrow> jstring \<Rightarrow> rmatch option" where
  "matchEither pat a b = (case re_match pat a of Some m \<Rightarrow> Some m | None \<Rightarrow> re_match pat b)"

text \<open>The body of the inner loop of \<open>detectHookType\<close>, for one pattern of one hook type.\<close>

definition hookTry ::
  "jstring \<Rightarrow> jstring \<Rightarrow> HookType \<Rightarrow> HookType Detection \<Rightarrow> regex \<Rightarrow> HookType Detection" where
  "hookTry firstLine firstTwoLines t bestMatch pat =
     (case matchEither pat firstLine firstTwoLines of
        None \<Rightarrow> bestMatch
      | Some m \<Rightarrow>
          (let c = (if m_index m = 0 then 9 / 10 else 7 / 10)
           in if c > confidence bestMatch
              then \<lparr>dtype = t, confidence = c, matchedText = m_text m\<rparr>
              else bestMatch))"

definition hookLoop ::
  "jstring \<Rightarrow> jstring \<Rightarrow> HookType Detection \<Rightarrow> (HookType \<times> regex list) list \<Rightarrow> HookType Detection" where
  "hookLoop firstLine firstTwoLines start table =
     foldl (\<lambda>bestMatch (t, patterns).
              if t = NONE_hook then bestMatch
              else foldl (hookTry firstLine firstTwoLines t) bestMatch patterns)
       start table"

definition detectHookType :: "ParsedContent \<Rightarrow> HookType Detection" where
  "detectHookType parsed =
     (let firstLine = (case lines parsed of [] \<Rightarrow> [] | l # _ \<Rightarrow> toLowerCase l);
          firstTwoLines = toLowerCase (join (js '' '') (take 2 (lines parsed)));
          bestMatch = hookLoop firstLine firstTwoLines
                        \<lparr>dtype = NONE_hook, confidence = 0, matchedText = []\<rparr> HOOK_PATTERNS
      in case lines parsed of
           [] \<Rightarrow> bestMatch
         | l # _ \<Rightarrow>
             if endsWith l (js ''?'') \<and> confidence bestMatch < 8 / 10
             then \<lparr>dtype = QUESTION, confidence = 85 / 100, matchedText = l\<rparr>
             else bestMatch)"

text \<open>\<open>s.replace(a, b)\<close> for one-character strings: the first occurrence only.\<close>

fun replace_first :: "cu \<Rightarrow> cu \<Rightarrow> jstring \<Rightarrow> jstring" where
  "replace_first a b [] = []"
| "replace_first a b (c # cs) = (if c = a then b # cs else c # replace_first a b cs)"

definition numberedItem :: re where
  "numberedItem = seqs [Chars [10], plus_re digit, str ''.'']"

definition bulletItem :: re where
  "bulletItem = Seq (Chars [10]) (Cls (COneOf (bullet1 @ js ''-*'' @ bullet2)))"

definition bodyTry ::
  "jstring \<Rightarrow> BodyDetection \<Rightarrow> BodyType \<times> regex list \<times> string list \<Rightarrow> BodyDetection" where
  "bodyTry c bestMatch entry =
     (case entry of (t, patterns, indicators) \<Rightarrow>
        (let n1 = foldl (\<lambda>matchCount pattern.
                           if re_test pattern c then matchCount + 1 else matchCount)
                    (0 :: rat) patterns;
             (matchCount, matchedIndicator) =
               foldl (\<lambda>(matchCount, matchedIndicator) indicator.
                        if str_includes c (replace_first 45 32 (js indicator))
                        then (matchCount + 1 / 2, js indicator)
                        else (matchCount, matchedIndicator))
                 (n1, []) indicators
         in if matchCount > 0
            then (let conf = min (9 / 10) (4 / 10 + matchCount * (15 / 100))
                  in if conf > bconfidence bestMatch
                     then \<lparr>btype = t, bconfidence = conf,
                           bstructure = (if matchedIndicator = [] then js ''pattern-detected''
                                         else matchedIndicator)\<rparr>
                     else bestMatch)
            else bestMatch))"

definition detectBodyType :: "ParsedContent \<Rightarrow> BodyDetection" where
  "detectBodyType parsed =
     (let c = toLowerCase (original parsed);
          hasNumberedItems = re_test (no_flags, numberedItem) (original parsed);
          hasBulletPoints = re_test (no_flags, bulletItem) (original parsed)
      in if hasNumberedItems \<or> hasBulletPoints
         then (let itemCount = length (re_match_all (no_flags, numberedItem) (original parsed))
                             + length (re_match_all (no_flags, bulletItem) (original parsed))
               in \<lparr>btype = LISTICLE, bconfidence = 9 / 10,
                   bstructure = show_nat itemCount @ js '' items''\<rparr>)
         else foldl (bodyTry c)
                \<lparr>btype = INSIGHT_SHARING, bconfidence = 3 / 10, bstructure = js ''general''\<rparr>
                BODY_PATTERNS)"

definition ctaTry ::
  "jstring \<Rightarrow> jstring \<Rightarrow> CTAType \<Rightarrow> CTAType Detection \<Rightarrow> regex \<Rightarrow> CTAType Detection" where
  "ctaTry lastLines fullContent t bestMatch pat =
     (case matchEither pat lastLines fullContent of
        None \<Rightarrow> bestMatch
      | Some m \<Rightarrow>
          (let c = (if str_includes lastLines (m_text m) then 85 / 100 else 7 / 10)
           in if c > confidence bestMatch
              then \<lparr>dtype = t, confidence = c, matchedText = m_text m\<rparr>
              else bestMatch))"

definition ctaLoop ::
  "jstring \<Rightarrow> jstring \<Rightarrow> CTAType Detection \<Rightarrow> (CTAType \<times> regex list) list \<Rightarrow> CTAType Detection" where
  "ctaLoop lastLines fullContent start table =
     foldl (\<lambda>bestMatch (t, patterns).
              if t = NONE_cta then bestMatch
              else foldl (ctaTry lastLines fullContent t) bestMatch patterns)
       start table"

text \<open>
  In the last step \<open>parsed.links[0]\<close> is read; for a parsed content whose link list is
  empty although \<open>hasLinks\<close> is set (the parser never produces one) the text is
  undefined in the source and empty here.
\<close>

definition detectCTAType :: "ParsedContent \<Rightarrow> CTAType Detection" where
  "detectCTAType parsed =
     (let lastLines = toLowerCase (join (js '' '') (drop (length (lines parsed) - 3) (lines parsed)));
          fullContent = toLowerCase (original parsed);
          b1 = ctaLoop lastLines fullContent
                 \<lparr>dtype = NONE_cta, confidence = 0, matchedText = []\<rparr> CTA_PATTERNS;
          b2 = (if lines parsed \<noteq> [] \<and> endsWith (last (lines parsed)) (js ''?'')
                   \<and> confidence b1 < 7 / 10
                then \<lparr>dtype = QUESTION_TO_AUDIENCE, confidence = 75 / 100,
                      matchedText = last (lines parsed)\<rparr>
                else b1)
      in if hasLinks parsed \<and> confidence b2 < 6 / 10
         then \<lparr>dtype = LINK, confidence = 6 / 10,
               matchedText = (case links parsed of [] \<Rightarrow> [] | l # _ \<Rightarrow> l)\<rparr>
         else b2)"

definition identifyFormatPattern :: "ParsedContent \<Rightarrow> Platform \<Rightarrow> DetectedFormatPattern" where
  "identifyFormatPattern parsed pf =
     (let hookResult = detectHookType parsed;
          bodyResult = detectBodyType parsed;
          ctaResult = detectCTAType parsed
      in \<lparr>hookType = dtype hookResult,
          hookConfidence = confidence hookResult,
          hookText = matchedText hookResult,
          bodyType = btype bodyResult,
          bodyConfidence = bconfidence bodyResult,
          bodyStructure = bstructure bodyResult,
          ctaType = dtype ctaResult,
          ctaConfidence = confidence ctaResult,
          ctaText = matchedText ctaResult\<rparr>)"

section \<open>Signals and virality score\<close>

text \<open>
  For each trigger the first word contained in the lower-cased content adds the
  trigger, and the remaining words of that trigger are skipped.
\<close>

definition detectEmotionalTriggers :: "ParsedContent \<Rightarrow> EmotionalTrigger list" where
  "detectEmotionalTriggers parsed =
     (let c = toLowerCase (original parsed)
      in foldl (\<lambda>detectedTriggers (trigger, ws).
                  if list_ex (\<lambda>w. str_includes c (toLowerCase (js w))) ws
                     \<and> \<not> List.member detectedTriggers trigger
                  then detectedTriggers @ [trigger] else detectedTriggers)
           [] EMOTIONAL_TRIGGER_WORDS)"

definition extractViralSignals :: "ParsedContent \<Rightarrow> Platform \<Rightarrow> ViralSignals" where
  "extractViralSignals parsed pf = \<lparr>emotionalTriggers = detectEmotionalTriggers parsed\<rparr>"

definition calculateHookScore :: "DetectedFormatPattern \<Rightarrow> rat" where
  "calculateHookScore fp =
     (let baseScore = (if hookType fp \<noteq> NONE_hook then 15 else 5);
          confidenceBonus = hookConfidence fp * 10
      in min 25 (baseScore + confidenceBonus))"

definition calculateBodyScore :: "ParsedContent \<Rightarrow> DetectedFormatPattern \<Rightarrow> rat" where
  "calculateBodyScore parsed fp =
     (let s0 = 10;
          s1 = (if bodyType fp \<noteq> INSIGHT_SHARING then s0 + 8 else s0);
          s2 = s1 + bodyConfidence fp * 7;
          s3 = (if totalLineBreaks (lineBreakStructure parsed) > 3 then s2 + 3 else s2);
          s4 = (if length (paragraphs parsed) > 1 then s3 + 2 else s3)
      in min 25 s4)"

fun ctaScores :: "CTAType \<Rightarrow> rat" where
  "ctaScores QUESTION_TO_AUDIENCE = 15"
| "ctaScores ENGAGEMENT_BAIT = 14"
| "ctaScores COMMENT_PROMPT = 13"
| "ctaScores SHARE = 12"
| "ctaScores SAVE_FOR_LATER = 11"
| "ctaScores LINK = 10"
| "ctaScores FOLLOW_UP = 9"
| "ctaScores NONE_cta = 5"

definition calculateCTAScore :: "DetectedFormatPattern \<Rightarrow> rat" where
  "calculateCTAScore fp =
     (if ctaType fp = NONE_cta then 5
      else (let baseScore = ctaScores (ctaType fp);
                confidenceBonus = ctaConfidence fp * 5
            in min 15 (baseScore - 5 + confidenceBonus)))"

definition calculateEmotionalScore :: "ViralSignals \<Rightarrow> rat" where
  "calculateEmotionalScore signals =
     (let triggerCount = length (emotionalTriggers signals);
          baseScore = min 10 (of_nat triggerCount * 3);
          strongEmotions = [CURIOSITY, SURPRISE, URGENCY];
          hasStrongEmotion = list_ex (\<lambda>t. List.member strongEmotions t) (emotionalTriggers signals);
          strongEmotionBonus = (if hasStrongEmotion then 5 else 0)
      in min 15 (baseScore + strongEmotionBonus))"

definition calculateFormatScore :: "ParsedContent \<Rightarrow> Platform \<Rightarrow> rat" where
  "calculateFormatScore parsed pf =
     (let s0 = 5;
          s3 = (if pf = linkedin
                then (let s1 = (if totalLineBreaks (lineBreakStructure parsed) \<ge> 3 then s0 + 2 else s0);
                          s2 = (if length (paragraphs parsed) \<ge> 2 then s1 + 2 else s1)
                      in if emojiCount parsed \<ge> 1 \<and> emojiCount parsed \<le> 5 then s2 + 1 else s2)
                else (let s1 = (if hasHashtags parsed then s0 + 2 else s0);
                          s2 = (if emojiCount parsed \<ge> 1 then s1 + 2 else s1)
                      in if wordCount parsed \<le> 280 then s2 + 1 else s2))
      in min 10 s3)"

definition calculatePlatformFitScore :: "ParsedContent \<Rightarrow> Platform \<Rightarrow> rat" where
  "calculatePlatformFitScore parsed pf =
     (let s0 = 5;
          s2 = (if pf = linkedin
                then (let s1 = (if wordCount parsed \<ge> 100 \<and> wordCount parsed \<le> 400
                                then s0 + 3 else s0)
                      in if length (paragraphs parsed) \<ge> 2 then s1 + 2 else s1)
                else (let s1 = (if wordCount parsed \<le> 280 then s0 + 3 else s0)
                      in if hasHashtags parsed then s1 + 2 else s1))
      in min 10 s2)"

text \<open>The six terms of the score, in the order in which they are added.\<close>

definition scoreTerms ::
  "ViralPost \<Rightarrow> ParsedContent \<Rightarrow> DetectedFormatPattern \<Rightarrow> ViralSignals \<Rightarrow> rat list" where
  "scoreTerms post parsed fp signals =
     [calculateHookScore fp, calculateBodyScore parsed fp, calculateCTAScore fp,
      calculateEmotionalScore signals, calculateFormatScore parsed (platform post),
      calculatePlatformFitScore parsed (platform post)]"

text \<open>
  \<open>engagementRate && engagementRate > 5\<close>: an absent rate and the rate 0 are falsy.
\<close>

definition calculateViralityScore ::
  "ViralPost \<Rightarrow> ParsedContent \<Rightarrow> DetectedFormatPattern \<Rightarrow> ViralSignals \<Rightarrow> rat" where
  "calculateViralityScore post parsed fp signals =
     (let score = foldl (+) 0 (scoreTerms post parsed fp signals);
          score' = (case engagementRate (metrics post) of
                      None \<Rightarrow> score
                    | Some e \<Rightarrow> if e \<noteq> 0 \<and> e > 5 then min 100 (score * (11 / 10)) else score)
      in min 100 (math_round score'))"

definition analyzePost :: "ViralPost \<Rightarrow> AnalysisResult" where
  "analyzePost post =
     (let parsed = parsePostContent (content post);
          fp = identifyFormatPattern parsed (platform post);
          signals = extractViralSignals parsed (platform post);
          score = calculateViralityScore post parsed fp signals
      in \<lparr>postId = post_id post, viralityScore = score, formatPattern = fp,
          viralSignals = signals\<rparr>)"

section \<open>Format store\<close>

text \<open>
  The store is the module-level \<open>Map\<close>: an association list in insertion order.
  Setting a key that is present keeps its place, a new key goes to the end. Every
  operation takes the store and returns the new one next to its result. A \<open>clock\<close>
  gives the timestamps that an operation reads: \<open>clock n\<close> is its reading number \<open>n\<close>.
\<close>

type_synonym store = "(jstring \<times> FormatPattern) list"

type_synonym clock = "nat \<Rightarrow> jstring"

definition store_get :: "store \<Rightarrow> jstring \<Rightarrow> FormatPattern option" where
  "store_get s k = map_of s k"

definition store_has :: "store \<Rightarrow> jstring \<Rightarrow> bool" where
  "store_has s k = (map_of s k \<noteq> None)"

fun store_set :: "jstring \<Rightarrow> FormatPattern \<Rightarrow> store \<Rightarrow> store" where
  "store_set k v [] = [(k, v)]"
| "store_set k v ((k', v') # s) = (if k' = k then (k, v) # s else (k', v') # store_set k v s)"

definition store_delete :: "jstring \<Rightarrow> store \<Rightarrow> store" where
  "store_delete k s = filter (\<lambda>(k', v). k' \<noteq> k) s"

definition store_values :: "store \<Rightarrow> FormatPattern list" where
  "store_values s = map snd s"

definition generateFormatId :: "DetectedFormatPattern \<Rightarrow> Platform \<Rightarrow> jstring" where
  "generateFormatId fp pf =
     (let hash = platformValue pf @ js ''-'' @ hookValue (hookType fp) @ js ''-''
                 @ bodyValue (bodyType fp) @ js ''-'' @ ctaValue (ctaType fp)
      in map (\<lambda>c. if (97 \<le> c \<and> c \<le> 122) \<or> isDigit c \<or> c = 45 then c else 45)
           (toLowerCase hash))"

fun hookNames :: "HookType \<Rightarrow> jstring" where
  "hookNames QUESTION = js ''Question Hook''"
| "hookNames BOLD_STATEMENT = js ''Bold Statement''"
| "hookNames STORY = js ''Story Opener''"
| "hookNames LIST = js ''List Intro''"
| "hookNames CONTROVERSIAL_TAKE = js ''Controversial''"
| "hookNames STATISTIC = js ''Data-Led''"
| "hookNames QUOTE = js ''Quote-Led''"
| "hookNames HOW_TO = js ''How-To''"
| "hookNames NONE_hook = js ''Direct''"

fun bodyNames :: "BodyType \<Rightarrow> jstring" where
  "bodyNames PROBLEM_SOLUTION = js ''Problem-Solution''"
| "bodyNames STORY_DRIVEN = js ''Story-Driven''"
| "bodyNames LISTICLE = js ''Listicle''"
| "bodyNames TUTORIAL = js ''Tutorial''"
| "bodyNames INSIGHT_SHARING = js ''Insight''"
| "bodyNames COMPARISON = js ''Comparison''"
| "bodyNames MYTH_BUSTING = js ''Myth-Buster''"
| "bodyNames LESSON_LEARNED = js ''Lesson''"
| "bodyNames THREAD = js ''Thread''"
| "bodyNames NARRATIVE = js ''Narrative''"

definition generateFormatName :: "DetectedFormatPattern \<Rightarrow> jstring" where
  "generateFormatName fp = hookNames (hookType fp) @ js '' '' @ bodyNames (bodyType fp)"

definition generateFormatDescription :: "DetectedFormatPattern \<Rightarrow> Platform \<Rightarrow> jstring" where
  "generateFormatDescription fp pf =
     (let platformNote = (if pf = linkedin then js ''Optimized for LinkedIn professional audience.''
                          else js ''Optimized for Twitter/X engagement.'')
      in js ''Format using '' @ hookValue (hookType fp) @ js '' hook with ''
         @ bodyValue (bodyType fp) @ js '' structure and '' @ ctaValue (ctaType fp)
         @ js '' call-to-action. '' @ platformNote)"

definition generateTemplate :: "jstring \<Rightarrow> DetectedFormatPattern \<Rightarrow> jstring" where
  "generateTemplate c fp =
     (let ls = filter (\<lambda>l. trim l \<noteq> []) (split_char 10 c);
          templateParts =
            (if length ls > 0
             then [js ''[HOOK: '' @ toUpperCase (hookValue (hookType fp)) @ js '']'',
                   js ''{First line - grab attention}'', []]
                  @ (if bodyType fp = LISTICLE
                     then [js ''[BODY: LIST FORMAT]'', js ''1. {Point one}'', js ''2. {Point two}'',
                           js ''3. {Point three}'']
                     else if bodyType fp = PROBLEM_SOLUTION
                     then [js ''[BODY: PROBLEM '' @ [0x2192] @ js '' SOLUTION]'',
                           js ''{Describe the problem}'', [], js ''{Present the solution}'']
                     else if bodyType fp = STORY_DRIVEN
                     then [js ''[BODY: STORY]'', js ''{Set the scene}'', [],
                           js ''{The conflict or challenge}'', [],
                           js ''{The resolution or insight}'']
                     else [js ''[BODY: MAIN CONTENT]'', js ''{Key insights and value}''])
                  @ [[], js ''[CTA: '' @ toUpperCase (ctaValue (ctaType fp)) @ js '']'',
                     js ''{Call to action}'']
             else [])
      in join [10] templateParts)"

definition topicKeywords :: "(string \<times> string list) list" where
  "topicKeywords =
   [(''entrepreneurship'', [''startup'', ''business'', ''entrepreneur'', ''founder'', ''company'']),
    (''career'', [''job'', ''career'', ''interview'', ''resume'', ''hiring'', ''promotion'']),
    (''leadership'', [''leader'', ''management'', ''team'', ''manager'', ''executive'']),
    (''technology'', [''ai'', ''tech'', ''software'', ''code'', ''developer'', ''automation'']),
    (''finance'', [''money'', ''invest'', ''wealth'', ''financial'', ''income'', ''revenue'']),
    (''productivity'', [''productivity'', ''habits'', ''efficiency'', ''time'', ''focus'']),
    (''marketing'', [''marketing'', ''sales'', ''growth'', ''customer'', ''brand'']),
    (''self-improvement'', [''growth'', ''mindset'', ''success'', ''goals'', ''improve''])]"

definition extractTags :: "jstring \<Rightarrow> AnalysisResult \<Rightarrow> jstring list" where
  "extractTags c analysis =
     (let lowerContent = toLowerCase c;
          topicTags = map (\<lambda>(topic, keywords). js topic)
                        (filter (\<lambda>(topic, keywords).
                                   list_ex (\<lambda>kw. str_includes lowerContent (js kw)) keywords)
                           topicKeywords);
          tags = topicTags @ map triggerValue (emotionalTriggers (viralSignals analysis))
      in take 10 (uniq tags))"

text \<open>
  \<open>1 / (usageCount + 1)\<close> is Infinity in the runtime when \<open>usageCount\<close> is \<open>-1\<close>, and
  the minimum is then 0.3.
\<close>

definition calculateUpdatedEffectiveness :: "rat \<Rightarrow> rat \<Rightarrow> rat \<Rightarrow> rat" where
  "calculateUpdatedEffectiveness currentScore newScore uc =
     (let weight = (if uc + 1 = 0 then 3 / 10 else min (3 / 10) (1 / (uc + 1)))
      in currentScore * (1 - weight) + newScore * weight)"

text \<open>\<open>analysisResult || analyzePost(post)\<close>\<close>

definition analysisFor :: "ViralPost \<Rightarrow> AnalysisResult option \<Rightarrow> AnalysisResult" where
  "analysisFor post analysisResult =
     (case analysisResult of Some a \<Rightarrow> a | None \<Rightarrow> analyzePost post)"

definition learnFromPost ::
  "ViralPost \<Rightarrow> AnalysisResult option \<Rightarrow> clock \<Rightarrow> store \<Rightarrow> FormatPattern \<times> store" where
  "learnFromPost post analysisResult clk s =
     (let analysis = analysisFor post analysisResult;
          formatId = generateFormatId (formatPattern analysis) (platform post)
      in case store_get s formatId of
           Some existingFormat \<Rightarrow>
             (let updatedFormat = existingFormat
                    \<lparr>effectivenessScore :=
                       calculateUpdatedEffectiveness (effectivenessScore existingFormat)
                         (viralityScore analysis) (usageCount existingFormat),
                     usageCount := usageCount existingFormat + 1,
                     fp_updatedAt := clk 0\<rparr>
              in (updatedFormat, store_set formatId updatedFormat s))
         | None \<Rightarrow>
             (let template = generateTemplate (content post) (formatPattern analysis);
                  newFormat =
                    \<lparr>fp_id = formatId,
                     fp_name = generateFormatName (formatPattern analysis),
                     fp_description = generateFormatDescription (formatPattern analysis) (platform post),
                     fp_platform = platform post,
                     fp_hookType = hookType (formatPattern analysis),
                     fp_bodyType = bodyType (formatPattern analysis),
                     fp_ctaType = ctaType (formatPattern analysis),
                     fp_template = template,
                     fp_examplePost = content post,
                     fp_tags = extractTags (content post) analysis,
                     effectivenessScore = viralityScore analysis,
                     usageCount = 1,
                     fp_createdAt = clk 0,
                     fp_updatedAt = clk 1\<rparr>
              in (newFormat, store_set formatId newFormat s)))"

text \<open>
  The comparator \<open>b.effectivenessScore - a.effectivenessScore\<close> with the stable sort of
  the runtime: descending scores, equal scores in their stored order.
\<close>

definition getStoredFormats :: "Platform option \<Rightarrow> store \<Rightarrow> FormatPattern list" where
  "getStoredFormats pf s =
     (let formats = store_values s
      in case pf of
           Some p \<Rightarrow> filter (\<lambda>f. fp_platform f = p) formats
         | None \<Rightarrow> sort_key (\<lambda>f. - effectivenessScore f) formats)"

definition getFormatById :: "jstring \<Rightarrow> store \<Rightarrow> FormatPattern option" where
  "getFormatById k s = store_get s k"

text \<open>
  The argument of \<open>updateFormat\<close> has every field of a format except \<open>id\<close> and
  \<open>createdAt\<close>, each of them optional.
\<close>

record FormatUpdates =
  u_name :: "jstring option"
  u_description :: "jstring option"
  u_platform :: "Platform option"
  u_hookType :: "HookType option"
  u_bodyType :: "BodyType option"
  u_ctaType :: "CTAType option"
  u_template :: "jstring option"
  u_examplePost :: "jstring option"
  u_tags :: "jstring list option"
  u_effectivenessScore :: "rat option"
  u_usageCount :: "rat option"
  u_updatedAt :: "jstring option"

definition orElse :: "'a option \<Rightarrow> 'a \<Rightarrow> 'a" where
  "orElse x d = (case x of None \<Rightarrow> d | Some v \<Rightarrow> v)"

definition updateFormat ::
  "jstring \<Rightarrow> FormatUpdates \<Rightarrow> clock \<Rightarrow> store \<Rightarrow> FormatPattern option \<times> store" where
  "updateFormat k updates clk s =
     (case store_get s k of
        None \<Rightarrow> (None, s)
      | Some existing \<Rightarrow>
          (let updated =
                 \<lparr>fp_id = fp_id existing,
                  fp_name = orElse (u_name updates) (fp_name existing),
                  fp_description = orElse (u_description updates) (fp_description existing),
                  fp_platform = orElse (u_platform updates) (fp_platform existing),
                  fp_hookType = orElse (u_hookType updates) (fp_hookType existing),
                  fp_bodyType = orElse (u_bodyType updates) (fp_bodyType existing),
                  fp_ctaType = orElse (u_ctaType updates) (fp_ctaType existing),
                  fp_template = orElse (u_template updates) (fp_template existing),
                  fp_examplePost = orElse (u_examplePost updates) (fp_examplePost existing),
                  fp_tags = orElse (u_tags updates) (fp_tags existing),
                  effectivenessScore =
                    orElse (u_effectivenessScore updates) (effectivenessScore existing),
                  usageCount = orElse (u_usageCount updates) (usageCount existing),
                  fp_createdAt = fp_createdAt existing,
                  fp_updatedAt = clk 0\<rparr>
           in (Some updated, store_set k updated s)))"

text \<open>\<open>Map.delete\<close>: whether the key was present, and the store without it.\<close>

definition deleteFormat :: "jstring \<Rightarrow> store \<Rightarrow> bool \<times> store" where
  "deleteFormat k s = (store_has s k, store_delete k s)"

text \<open>A call of \<open>learnFromPost\<close> reads the clock at most twice.\<close>

fun batchLearn :: "ViralPost list \<Rightarrow> clock \<Rightarrow> store \<Rightarrow> FormatPattern list \<times> store" where
  "batchLearn [] clk s = ([], s)"
| "batchLearn (post # posts) clk s =
     (case learnFromPost post None clk s of
        (f, s') \<Rightarrow>
          (case batchLearn posts (\<lambda>n. clk (n + 2)) s' of (fs, s'') \<Rightarrow> (f # fs, s'')))"

definition exportFormats :: "store \<Rightarrow> FormatPattern list" where
  "exportFormats s = store_values s"

datatype MergeStrategy = replace | merge | skip

definition importOne :: "MergeStrategy \<Rightarrow> jstring \<Rightarrow> store \<Rightarrow> FormatPattern \<Rightarrow> store" where
  "importOne mergeStrategy now s format =
     (case store_get s (fp_id format) of
        None \<Rightarrow> store_set (fp_id format) format s
      | Some existing \<Rightarrow>
          if mergeStrategy = replace then store_set (fp_id format) format s
          else if mergeStrategy = merge
          then store_set (fp_id format)
                 (existing\<lparr>effectivenessScore :=
                              (effectivenessScore existing + effectivenessScore format) / 2,
                            usageCount := usageCount existing + usageCount format,
                            fp_tags := uniq (fp_tags existing @ fp_tags format),
                            fp_updatedAt := now\<rparr>) s
          else s)"

text \<open>The loop of \<open>importFormats\<close>; the format at index \<open>i\<close> reads the clock as \<open>clk i\<close>.\<close>

fun importLoop :: "MergeStrategy \<Rightarrow> clock \<Rightarrow> nat \<Rightarrow> FormatPattern list \<Rightarrow> store \<Rightarrow> store" where
  "importLoop mergeStrategy clk i [] s = s"
| "importLoop mergeStrategy clk i (format # formats) s =
     importLoop mergeStrategy clk (Suc i) formats (importOne mergeStrategy (clk i) s format)"

definition importFormats :: "FormatPattern list \<Rightarrow> MergeStrategy \<Rightarrow> clock \<Rightarrow> store \<Rightarrow> store" where
  "importFormats formats mergeStrategy clk s = importLoop mergeStrategy clk 0 formats s"

definition clearFormats :: "store \<Rightarrow> store" where
  "clearFormats s = []"

text \<open>
  \<open>findBestMatch\<close> changes the store only through \<open>getDefaultFormat\<close>, which it calls
  when no format is stored for the platform; the matching itself is not modelled.
\<close>

definition getDefaultFormat :: "jstring \<Rightarrow> Platform \<Rightarrow> clock \<Rightarrow> store \<Rightarrow> store" where
  "getDefaultFormat topic pf clk s =
     (let defaultFormat =
            \<lparr>fp_id = js ''default-'' @ platformValue pf,
             fp_name = js ''Default Viral Format'',
             fp_description = js ''A balanced format suitable for most content types'',
             fp_platform = pf,
             fp_hookType = QUESTION,
             fp_bodyType = INSIGHT_SHARING,
             fp_ctaType = QUESTION_TO_AUDIENCE,
             fp_template = join [10]
               [js ''[HOOK: QUESTION]'',
                js ''{Ask a compelling question related to '' @ topic @ js ''}'',
                [],
                js ''[BODY: INSIGHT]'',
                js ''{Share your key insight or perspective}'',
                js ''{Support with examples or data}'',
                [],
                js ''[CTA: QUESTION]'',
                js ''{Ask the audience for their thoughts}''],
             fp_examplePost = [],
             fp_tags = [topic],
             effectivenessScore = 50,
             usageCount = 0,
             fp_createdAt = clk 0,
             fp_updatedAt = clk 1\<rparr>
      in if \<not> store_has s (fp_id defaultFormat)
         then store_set (fp_id defaultFormat) defaultFormat s else s)"

definition findBestMatch_store :: "jstring \<Rightarrow> Platform \<Rightarrow> clock \<Rightarrow> store \<Rightarrow> store" where
  "findBestMatch_store topic pf clk s =
     (if length (getStoredFormats (Some pf) s) = 0 then getDefaultFormat topic pf clk s else s)"

definition defaultFormats :: "clock \<Rightarrow> FormatPattern list" where
  "defaultFormats clk =
     [\<lparr>fp_id = js ''linkedin-question-listicle'',
       fp_name = js ''Question Hook Listicle'',
       fp_description = js ''Opens with a question, delivers value through a numbered list'',
       fp_platform = linkedin,
       fp_hookType = QUESTION,
       fp_bodyType = LISTICLE,
       fp_ctaType = SAVE_FOR_LATER,
       fp_template = join [10]
         [js ''[HOOK: QUESTION]'',
          js ''{Ask a specific question your audience faces}'',
          [],
          js ''[BODY: NUMBERED LIST]'',
          js ''1. {First valuable point}'',
          js ''2. {Second valuable point}'',
          js ''3. {Third valuable point}'',
          [],
          js ''[CTA: SAVE]'',
          js ''Save this for later reference''],
       fp_examplePost = [],
       fp_tags = [js ''educational'', js ''value-driven''],
       effectivenessScore = 75,
       usageCount = 100,
       fp_createdAt = clk 0,
       fp_updatedAt = clk 1\<rparr>,
      \<lparr>fp_id = js ''linkedin-story-lesson'',
       fp_name = js ''Story-Driven Lesson'',
       fp_description = js ''Personal story that leads to a valuable lesson'',
       fp_platform = linkedin,
       fp_hookType = STORY,
       fp_bodyType = LESSON_LEARNED,
       fp_ctaType = COMMENT_PROMPT,
       fp_template = join [10]
         [js ''[HOOK: STORY]'',
          js ''{Set up the story with context}'',
          [],
          js ''[BODY: STORY + LESSON]'',
          js ''{Tell your story with the challenge}'',
          js ''{Share what you learned}'',
          [],
          js ''[CTA: COMMENT]'',
          js ''Have you experienced something similar? Share below.''],
       fp_examplePost = [],
       fp_tags = [js ''personal'', js ''relatable'', js ''story''],
       effectivenessScore = 80,
       usageCount = 150,
       fp_createdAt = clk 2,
       fp_updatedAt = clk 3\<rparr>,
      \<lparr>fp_id = js ''twitter-bold-insight'',
       fp_name = js ''Bold Statement Insight'',
       fp_description = js ''Controversial or bold opening that delivers valuable insight'',
       fp_platform = twitter,
       fp_hookType = BOLD_STATEMENT,
       fp_bodyType = INSIGHT_SHARING,
       fp_ctaType = ENGAGEMENT_BAIT,
       fp_template = join [10]
         [js ''[HOOK: BOLD]'',
          js ''{Make a bold, attention-grabbing statement}'',
          [],
          js ''[BODY: INSIGHT]'',
          js ''{Back it up with insight}'',
          [],
          js ''[CTA: ENGAGEMENT]'',
          js ''RT if you agree '' @ [0xD83D, 0xDC47]],
       fp_examplePost = [],
       fp_tags = [js ''bold'', js ''controversial''],
       effectivenessScore = 70,
       usageCount = 200,
       fp_createdAt = clk 4,
       fp_updatedAt = clk 5\<rparr>]"

definition initializeDefaultFormats :: "clock \<Rightarrow> store \<Rightarrow> store" where
  "initializeDefaultFormats clk s =
     foldl (\<lambda>s format. if \<not> store_has s (fp_id format) then store_set (fp_id format) format s
                        else s)
       s (defaultFormats clk)"

text \<open>The store after the module is loaded: the empty map, seeded.\<close>

definition seededStore :: "clock \<Rightarrow> store" where
  "seededStore clk = initializeDefaultFormats clk []"

section \<open>Hook detection as the specification words it\<close>

text \<open>One rule on the two strings: its match, with the confidence of its position.\<close>

definition ruleMatch ::
  "jstring \<Rightarrow> jstring \<Rightarrow> HookType \<Rightarrow> regex \<Rightarrow> HookType Detection option" where
  "ruleMatch firstLine firstTwoLines t pat =
     (case matchEither pat firstLine firstTwoLines of
        None \<Rightarrow> None
      | Some m \<Rightarrow> Some \<lparr>dtype = t, confidence = (if m_index m = 0 then 9 / 10 else 7 / 10),
                       matchedText = m_text m\<rparr>)"

definition noHook :: "HookType Detection" where
  "noHook = \<lparr>dtype = NONE_hook, confidence = 0, matchedText = []\<rparr>"

text \<open>The first of the matches with the highest confidence; NONE at 0 for no match.\<close>

definition highest :: "HookType Detection list \<Rightarrow> HookType Detection" where
  "highest ds = foldl (\<lambda>b d. if confidence d > confidence b then d else b) noHook ds"

text \<open>
  The words of the specification: for each hook type other than NONE the first rule
  that matches wins for that type; the result is the highest-confidence winner.
\<close>

definition spec_typeWinner ::
  "jstring \<Rightarrow> jstring \<Rightarrow> HookType \<times> regex list \<Rightarrow> HookType Detection option" where
  "spec_typeWinner firstLine firstTwoLines entry =
     (case entry of (t, patterns) \<Rightarrow>
        if t = NONE_hook then None
        else (case List.map_filter (ruleMatch firstLine firstTwoLines t) patterns of
                [] \<Rightarrow> None
              | d # _ \<Rightarrow> Some d))"

definition spec_detectHookType :: "ParsedContent \<Rightarrow> HookType Detection" where
  "spec_detectHookType parsed =
     (let firstLine = (case lines parsed of [] \<Rightarrow> [] | l # _ \<Rightarrow> toLowerCase l);
          firstTwoLines = toLowerCase (join (js '' '') (take 2 (lines parsed)));
          best = highest (List.map_filter (spec_typeWinner firstLine firstTwoLines) HOOK_PATTERNS)
      in case lines parsed of
           [] \<Rightarrow> best
         | l # _ \<Rightarrow>
             if endsWith l (js ''?'') \<and> confidence best < 8 / 10
             then \<lparr>dtype = QUESTION, confidence = 85 / 100, matchedText = l\<rparr>
             else best)"

text \<open>
  What the loops of \<open>detectHookType\<close> go through: the matches of all rules of all hook
  types other than NONE, in the order of the table.
\<close>

definition hookCandidates ::
  "jstring \<Rightarrow> jstring \<Rightarrow> (HookType \<times> regex list) list \<Rightarrow> HookType Detection list" where
  "hookCandidates firstLine firstTwoLines table =
     concat (map (\<lambda>(t, patterns).
                    if t = NONE_hook then []
                    else List.map_filter (ruleMatch firstLine firstTwoLines t) patterns)
               table)"

definition startsAtZero :: "HookType Detection \<Rightarrow> bool" where
  "startsAtZero d \<longleftrightarrow> confidence d = 9 / 10"

definition ruleConfidence :: "HookType Detection \<Rightarrow> bool" where
  "ruleConfidence d \<longleftrightarrow> confidence d = 9 / 10 \<or> confidence d = 7 / 10"

text \<open>The first candidate of confidence 0.9, else the first candidate, else NONE at 0.\<close>

definition earliestBest :: "HookType Detection list \<Rightarrow> HookType Detection" where
  "earliestBest ds =
     (case find startsAtZero ds of
        Some d \<Rightarrow> d
      | None \<Rightarrow> (case ds of [] \<Rightarrow> noHook | d # _ \<Rightarrow> d))"

section \<open>Reachable stores\<close>

text \<open>
  The stores that the module can hold: the seeded store, and what the exported
  operations make of a store. (\<open>findBestMatch\<close> and \<open>getLearningData\<close> change it at
  most through \<open>getDefaultFormat\<close>.)
\<close>

inductive reachable :: "store \<Rightarrow> bool" where
  start: "reachable (seededStore clk)"
| learn: "reachable s \<Longrightarrow> reachable (snd (learnFromPost post analysisResult clk s))"
| batch: "reachable s \<Longrightarrow> reachable (snd (batchLearn posts clk s))"
| update: "reachable s \<Longrightarrow> reachable (snd (updateFormat k updates clk s))"
| delete: "reachable s \<Longrightarrow> reachable (snd (deleteFormat k s))"
| imported: "reachable s \<Longrightarrow> reachable (importFormats formats mergeStrategy clk s)"
| cleared: "reachable s \<Longrightarrow> reachable (clearFormats s)"
| matched: "reachable s \<Longrightarrow> reachable (findBestMatch_store topic pf clk s)"
| initialized: "reachable s \<Longrightarrow> reachable (initializeDefaultFormats clk s)"


text \<open>Every key is the id of its format, and no key occurs twice.\<close>

definition keyed :: "store \<Rightarrow> bool" where
  "keyed s \<longleftrightarrow> list_all (\<lambda>(k, v). fp_id v = k) s \<and> distinct (map fst s)"



section \<open>Example inputs\<close>

definition noUpdates :: FormatUpdates where
  "noUpdates = \<lparr>u_name = None, u_description = None, u_platform = None, u_hookType = None,
     u_bodyType = None, u_ctaType = None, u_template = None, u_examplePost = None,
     u_tags = None, u_effectivenessScore = None, u_usageCount = None, u_updatedAt = None\<rparr>"

text \<open>A clock that reads the same instant every time.\<close>

definition clock0 :: clock where
  "clock0 = (\<lambda>n. js ''2026-01-01T00:00:00.000Z'')"

text \<open>The post of scenario 1.\<close>

definition scenario1 :: jstring where
  "scenario1 = js ''RIP cold outreach.\<newline>\<newline>Agencies charge $5K for this. I automated it.\<newline>\<newline>Comment SYSTEM below.''"

section \<open>The score formula as the specification words it\<close>

text \<open>
  The factor applied to the sum of the six terms: 1.1 exactly when the post's recorded
  engagement rate exceeds 5.
\<close>

definition engagementBoost :: "ViralPost \<Rightarrow> rat" where
  "engagementBoost post =
     (case engagementRate (metrics post) of
        None \<Rightarrow> 1
      | Some e \<Rightarrow> if e > 5 then 11 / 10 else 1)"

definition clamp :: "rat \<Rightarrow> rat \<Rightarrow> rat \<Rightarrow> rat" where
  "clamp lo hi x = max lo (min hi x)"

definition termCaps :: "rat list" where
  "termCaps = [25, 25, 15, 15, 10, 10]"

text \<open>A post with an engagement rate above 5, on the text of scenario 1.\<close>

definition post1 :: ViralPost where
  "post1 = \<lparr>post_id = js ''p1'', platform = linkedin, content = scenario1, author = None,
     url = None,
     metrics = \<lparr>likes = 10, comments = 2, shares = 1, saves = None, impressions = None,
                engagementRate = Some 6\<rparr>,
     createdAt = js ''2026-01-01T00:00:00.000Z'', analyzedAt = None\<rparr>"

text \<open>An analysis of the triad of scenario 3 with a given score.\<close>

definition triadAnalysis :: "rat \<Rightarrow> AnalysisResult" where
  "triadAnalysis score =
     \<lparr>postId = js ''p'', viralityScore = score,
      formatPattern = \<lparr>hookType = BOLD_STATEMENT, hookConfidence = 9 / 10, hookText = js ''stop'',
         bodyType = LISTICLE, bodyConfidence = 9 / 10, bodyStructure = js ''3 items'',
         ctaType = SHARE, ctaConfidence = 85 / 100, ctaText = js ''share this''\<rparr>,
      viralSignals = \<lparr>emotionalTriggers = []\<rparr>\<rparr>"

definition tweet :: ViralPost where
  "tweet = \<lparr>post_id = js ''p'', platform = twitter,
     content = js ''Stop doing this.\<newline>1. one\<newline>2. two\<newline>Share this'', author = None,
     url = None,
     metrics = \<lparr>likes = 0, comments = 0, shares = 0, saves = None, impressions = None,
                engagementRate = None\<rparr>,
     createdAt = js ''2026-01-01T00:00:00.000Z'', analyzedAt = None\<rparr>"

text \<open>A one-line post whose second STATISTIC rule matches late and whose third matches at 0.\<close>

definition statPost :: jstring where
  "statPost = js ''million users by 2020''"

text \<open>A format with the usage count \<open>-1\<close>, as an import can bring one.\<close>

definition brokenCount :: "FormatPattern \<Rightarrow> FormatPattern" where
  "brokenCount f = f\<lparr>usageCount := - 1\<rparr>"

text \<open>A post that no hook rule matches.\<close>

definition plainPost :: jstring where
  "plainPost = js ''Hello world''"

section \<open>Evaluation\<close>

text \<open>The definitions that the simplifier unfolds to run a pattern on a concrete string.\<close>

lemmas rx_defs = js_def str_def lits_def plus_re_def opt_re_def digit_def anything_def
  no_flags_def fl_i_def fl_m_def fl_is_def fl_u_def ri_def wb_def wordAt_def peek_def
  isWordChar_def isDigit_def isSpace_def isLineTerminator_def canonicalize_def
  isHigh_def isLow_def re_match_def re_test_def re_match_all_def re_split_def

section \<open>The matcher never moves backwards\<close>

text \<open>
  A match ends at or after the position it started at, so the length tests in
  \<open>match_all\<close> always succeed: it satisfies the equation of the runtime's loop.
\<close>

lemma strip_shorter: "strip fl lit q = Some q' \<Longrightarrow> length (snd q') \<le> length (snd q)"
proof (induction fl lit q rule: strip.induct)
  case (1 fl q)
  then show ?case by simp
next
  case (2 fl a as p)
  then show ?case by simp
next
  case (3 fl a as p c cs)
  then show ?case by (auto split: if_splits)
qed

lemma next_cp_shorter: "next_cp u s = Some (c, q') \<Longrightarrow> length (snd q') < length s"
  by (induction u s rule: next_cp.induct) (auto split: if_splits)

lemma step_shorter_pair:
  "(p', s') \<in> set (step fl r q) \<Longrightarrow> length s' \<le> length (snd q)"
proof (induction fl r q arbitrary: p' s' rule: step.induct)
  case (1 fl lit q)
  then show ?case
    using strip_shorter [of fl lit q "(p', s')"] by (auto split: option.splits)
next
  case (2 fl cs p s)
  then obtain c where "next_cp (unicode fl) s = Some (c, (p', s'))"
    by (cases "next_cp (unicode fl) s") (auto split: if_splits)
  from next_cp_shorter [OF this] show ?case by simp
next
  case (3 fl a b q)
  from "3.prems" obtain p1 s1 where q1: "(p1, s1) \<in> set (step fl a q)"
    and q': "(p', s') \<in> set (step fl b (p1, s1))"
    by auto
  have "length s' \<le> length (snd (p1, s1))" by (rule "3.IH"(2) [OF q1 q'])
  moreover have "length s1 \<le> length (snd q)" by (rule "3.IH"(1) [OF q1])
  ultimately show ?case by simp
next
  case (4 fl a b q)
  then show ?case by auto
next
  case (5 fl a p s)
  show ?case
  proof (cases "(p', s') = (p, s)")
    case True
    then show ?thesis by simp
  next
    case False
    with "5.prems" obtain p1 s1 where q1: "(p1, s1) \<in> set (step fl a (p, s))"
      and sh: "length (snd (p1, s1)) < length s"
      and q': "(p', s') \<in> set (step fl (Star a) (p1, s1))"
      by (auto split: if_splits)
    have "length s' \<le> length (snd (p1, s1))" by (rule "5.IH"(2) [OF q1 sh q'])
    with sh show ?thesis by simp
  qed
next
  case (6 fl p s)
  then show ?case by (auto split: if_splits)
next
  case (7 fl p s)
  then show ?case by (auto split: if_splits)
next
  case (8 fl p s)
  then show ?case by (auto split: if_splits)
qed

lemma step_shorter: "q' \<in> set (step fl r q) \<Longrightarrow> length (snd q') \<le> length (snd q)"
  using step_shorter_pair [of "fst q'" "snd q'" fl r q] by simp

lemma search_after:
  "search fl r q i = Some m \<Longrightarrow>
   length (snd (m_after m)) \<le> length (snd q)
   \<and> (m_text m \<noteq> [] \<longrightarrow> length (snd (m_after m)) < length (snd q))"
proof (induction fl r q i rule: search.induct)
  case (1 fl r p i)
  show ?case
  proof (cases "step fl r (p, [])")
    case Nil
    with 1 show ?thesis by auto
  next
    case (Cons q qs)
    then have "q \<in> set (step fl r (p, []))" by simp
    from step_shorter [OF this] Cons "1.prems" show ?thesis by auto
  qed
next
  case (2 fl r p c i)
  show ?case
  proof (cases "step fl r (p, [c])")
    case Nil
    with 2 show ?thesis by auto
  next
    case (Cons q qs)
    then have "q \<in> set (step fl r (p, [c]))" by simp
    from step_shorter [OF this] Cons "2.prems" show ?thesis
      by (cases "snd q") auto
  qed
next
  case (3 fl r p c d ds i)
  show ?case
  proof (cases "step fl r (p, c # d # ds)")
    case Nil
    with 3 show ?thesis by (auto split: if_splits)
  next
    case (Cons q qs)
    then have "q \<in> set (step fl r (p, c # d # ds))" by simp
    from step_shorter [OF this] Cons "3.prems" show ?thesis by auto
  qed
qed


lemma match_all_unguarded:
  "match_all fl r (p, s) =
     (case search fl r (p, s) 0 of None \<Rightarrow> []
      | Some m \<Rightarrow> m_text m #
          (if m_text m \<noteq> [] then match_all fl r (m_after m)
           else (case next_cp (unicode fl) (snd (m_after m)) of None \<Rightarrow> []
                 | Some (c, q) \<Rightarrow> match_all fl r q)))"
proof (cases "search fl r (p, s) 0")
  case None
  then show ?thesis
    by (subst match_all.simps) (simp del: match_all.simps)
next
  case (Some m)
  note after = search_after [OF Some]
  show ?thesis
  proof (cases "m_text m = []")
    case False
    with after have "length (snd (m_after m)) < length s" by simp
    with False Some show ?thesis
      by (subst match_all.simps) (simp del: match_all.simps)
  next
    case True
    show ?thesis
    proof (cases "next_cp (unicode fl) (snd (m_after m))")
      case None
      with True Some show ?thesis
        by (subst match_all.simps) (simp del: match_all.simps)
    next
      case (Some cq)
      obtain c q where cq: "cq = (c, q)" by (cases cq)
      have "length (snd q) < length s"
        using next_cp_shorter [of "unicode fl" "snd (m_after m)" c q] Some cq after by simp
      with True Some cq \<open>search fl r (p, s) 0 = Some m\<close> show ?thesis
        by (subst match_all.simps) (simp del: match_all.simps)
    qed
  qed
qed

section \<open>Content parser: the empty post and the blank-line flag\<close>

text \<open>
  C1. For the empty string \<open>parsePostContent\<close> returns \<open>wordCount = 0\<close> and empty
  extraction lists, but \<open>totalLineBreaks\<close> is \<open>lines.length - 1\<close> with no line left
  after the blank ones are dropped: it is \<open>-1\<close>, not floored at 0. (The average line
  length of the same function does treat the empty case.)
\<close>

theorem parse_empty_string:
  "wordCount (parsePostContent []) = 0
   \<and> emojiCount (parsePostContent []) = 0
   \<and> hashtags (parsePostContent []) = []
   \<and> mentions (parsePostContent []) = []
   \<and> links (parsePostContent []) = []
   \<and> numbers (parsePostContent []) = []
   \<and> totalLineBreaks (lineBreakStructure (parsePostContent [])) = - 1"
  by (simp add: parsePostContent_def analyzeLineBreaks_def Let_def trim_def
        emojiRegex_def hashtagRegex_def mentionRegex_def urlRegex_def numberRegex_def
        wordSplit_def rx_defs)

text \<open>
  C10. For every input string the flag \<open>hasDoubleLineBreaks\<close> of the parsed content
  is false: the blank lines are filtered out of \<open>lines\<close> before the flag looks for a
  blank line among them.
\<close>

theorem hasDoubleLineBreaks_never:
  "hasDoubleLineBreaks (lineBreakStructure (parsePostContent c)) = False"
  by (simp add: parsePostContent_def analyzeLineBreaks_def Let_def list_ex_iff)

theorem hasDoubleLineBreaks_never_witness:
  "hasDoubleLineBreaks
     (lineBreakStructure (parsePostContent (js ''one\<newline>\<newline>two''))) = False"
  using hasDoubleLineBreaks_never [of "js ''one\<newline>\<newline>two''"] .

section \<open>Scenario 1\<close>

lemma scenario1_lines:
  "lines (parsePostContent scenario1) =
     [js ''RIP cold outreach.'', js ''Agencies charge $5K for this. I automated it.'',
      js ''Comment SYSTEM below.'']"
  by (simp add: parsePostContent_def scenario1_def Let_def trim_def rx_defs)

lemma scenario1_numbers: "numbers (parsePostContent scenario1) = []"
  by (simp add: parsePostContent_def scenario1_def Let_def numberRegex_def rx_defs)

lemma scenario1_hasNumbers: "hasNumbers (parsePostContent scenario1) = False"
  by (simp add: parsePostContent_def scenario1_def Let_def numberRegex_def rx_defs)

lemma scenario1_hasLinks: "hasLinks (parsePostContent scenario1) = False"
  by (simp add: parsePostContent_def scenario1_def Let_def urlRegex_def rx_defs)

lemma scenario1_firstLine:
  "(case lines (parsePostContent scenario1) of [] \<Rightarrow> [] | l # _ \<Rightarrow> toLowerCase l)
     = js ''rip cold outreach.''"
  by (simp add: scenario1_lines toLowerCase_def lowerUnit_def js_def)

lemma scenario1_firstTwoLines:
  "toLowerCase (join (js '' '') (take 2 (lines (parsePostContent scenario1))))
     = js ''rip cold outreach. agencies charge $5k for this. i automated it.''"
  by (simp add: scenario1_lines toLowerCase_def lowerUnit_def js_def)

lemma scenario1_hookLoop:
  "hookLoop (js ''rip cold outreach.'')
     (js ''rip cold outreach. agencies charge $5k for this. i automated it.'')
     \<lparr>dtype = NONE_hook, confidence = 0, matchedText = []\<rparr> HOOK_PATTERNS
   = \<lparr>dtype = NONE_hook, confidence = 0, matchedText = []\<rparr>"
  by (simp add: hookLoop_def hookTry_def matchEither_def HOOK_PATTERNS_def questionMarkAtEnd_def
        rx_defs)

lemma scenario1_hook:
  "detectHookType (parsePostContent scenario1)
     = \<lparr>dtype = NONE_hook, confidence = 0, matchedText = []\<rparr>"
  unfolding detectHookType_def Let_def scenario1_firstLine scenario1_firstTwoLines
    scenario1_hookLoop
  by (simp add: scenario1_lines endsWith_def js_def)

lemma scenario1_lastLines:
  "toLowerCase (join (js '' '')
      (drop (length (lines (parsePostContent scenario1)) - 3) (lines (parsePostContent scenario1))))
     = js ''rip cold outreach. agencies charge $5k for this. i automated it. comment system below.''"
  by (simp add: scenario1_lines toLowerCase_def lowerUnit_def js_def)

lemma scenario1_fullContent:
  "toLowerCase (original (parsePostContent scenario1))
     = js ''rip cold outreach.\<newline>\<newline>agencies charge $5k for this. i automated it.\<newline>\<newline>comment system below.''"
  by (simp add: parsePostContent_def Let_def scenario1_def toLowerCase_def lowerUnit_def js_def)

lemma scenario1_ctaLoop:
  "ctaLoop
     (js ''rip cold outreach. agencies charge $5k for this. i automated it. comment system below.'')
     (js ''rip cold outreach.\<newline>\<newline>agencies charge $5k for this. i automated it.\<newline>\<newline>comment system below.'')
     \<lparr>dtype = NONE_cta, confidence = 0, matchedText = []\<rparr> CTA_PATTERNS
   = \<lparr>dtype = ENGAGEMENT_BAIT, confidence = 85 / 100, matchedText = js ''comment''\<rparr>"
  by (simp add: ctaLoop_def ctaTry_def matchEither_def CTA_PATTERNS_def questionMarkAtEnd_def
        rx_defs)

lemma scenario1_cta:
  "detectCTAType (parsePostContent scenario1)
     = \<lparr>dtype = ENGAGEMENT_BAIT, confidence = 85 / 100, matchedText = js ''comment''\<rparr>"
  unfolding detectCTAType_def Let_def scenario1_lastLines scenario1_fullContent
    scenario1_ctaLoop
  by (simp add: scenario1_lines scenario1_hasLinks endsWith_def js_def)

text \<open>
  C3 as stated: on the post of scenario 1, a hook of type BOLD_STATEMENT or
  CONTROVERSIAL_TAKE with confidence at least 0.7, a call to action of type
  COMMENT_PROMPT or ENGAGEMENT_BAIT with confidence at least 0.7, and \<open>hasNumbers\<close> with
  the token 5 extracted. The code does not do this.
\<close>

theorem scenario1_counterexample:
  "\<not> ((hookType (identifyFormatPattern (parsePostContent scenario1) linkedin) = BOLD_STATEMENT
         \<or> hookType (identifyFormatPattern (parsePostContent scenario1) linkedin)
             = CONTROVERSIAL_TAKE)
       \<and> hookConfidence (identifyFormatPattern (parsePostContent scenario1) linkedin) \<ge> 7 / 10
       \<and> (ctaType (identifyFormatPattern (parsePostContent scenario1) linkedin) = COMMENT_PROMPT
           \<or> ctaType (identifyFormatPattern (parsePostContent scenario1) linkedin)
               = ENGAGEMENT_BAIT)
       \<and> ctaConfidence (identifyFormatPattern (parsePostContent scenario1) linkedin) \<ge> 7 / 10
       \<and> hasNumbers (parsePostContent scenario1)
       \<and> js ''5'' \<in> set (numbers (parsePostContent scenario1)))"
  by (simp add: identifyFormatPattern_def Let_def scenario1_hook)

text \<open>
  C3, amended. On the post of scenario 1 and platform linkedin no hook rule matches
  the lower-cased first line or first two lines and the first line does not end in a
  question mark: the hook is NONE with confidence 0. The call to action is
  ENGAGEMENT_BAIT with confidence 0.85 (the word "comment" in the last three lines).
  No numeric token is extracted and \<open>hasNumbers\<close> is false: the 5 of "$5K" is followed
  by a word character, so the closing word boundary of the number pattern fails.
\<close>

theorem scenario1_classification:
  "hookType (identifyFormatPattern (parsePostContent scenario1) linkedin) = NONE_hook
   \<and> hookConfidence (identifyFormatPattern (parsePostContent scenario1) linkedin) = 0
   \<and> ctaType (identifyFormatPattern (parsePostContent scenario1) linkedin) = ENGAGEMENT_BAIT
   \<and> ctaConfidence (identifyFormatPattern (parsePostContent scenario1) linkedin) = 85 / 100
   \<and> hasNumbers (parsePostContent scenario1) = False
   \<and> numbers (parsePostContent scenario1) = []"
  by (simp add: identifyFormatPattern_def Let_def scenario1_hook scenario1_cta
        scenario1_hasNumbers scenario1_numbers)

section \<open>Confidences and the virality score\<close>

lemma foldl_invariant:
  assumes "P a" and "\<And>b x. P b \<Longrightarrow> P (f b x)"
  shows "P (foldl f a xs)"
  using assms by (induction xs arbitrary: a) auto

lemma hookTry_range:
  "0 \<le> confidence b \<and> confidence b \<le> 1 \<Longrightarrow>
   0 \<le> confidence (hookTry l1 l2 t b pat) \<and> confidence (hookTry l1 l2 t b pat) \<le> 1"
  by (simp add: hookTry_def Let_def split: option.splits)

lemma hookLoop_range:
  assumes "0 \<le> confidence b \<and> confidence b \<le> 1"
  shows "0 \<le> confidence (hookLoop l1 l2 b table) \<and> confidence (hookLoop l1 l2 b table) \<le> 1"
  unfolding hookLoop_def
proof (rule foldl_invariant [where P = "\<lambda>b. 0 \<le> confidence b \<and> confidence b \<le> 1"])
  show "0 \<le> confidence b \<and> confidence b \<le> 1" by (rule assms)
next
  fix b :: "HookType Detection" and x :: "HookType \<times> regex list"
  assume b: "0 \<le> confidence b \<and> confidence b \<le> 1"
  obtain t pats where x: "x = (t, pats)" by (cases x)
  have "0 \<le> confidence (foldl (hookTry l1 l2 t) b pats)
        \<and> confidence (foldl (hookTry l1 l2 t) b pats) \<le> 1"
    by (rule foldl_invariant [where P = "\<lambda>b. 0 \<le> confidence b \<and> confidence b \<le> 1"])
       (use b hookTry_range in auto)
  with b show "0 \<le> confidence (case x of (t, patterns) \<Rightarrow>
                       if t = NONE_hook then b else foldl (hookTry l1 l2 t) b patterns)
             \<and> confidence (case x of (t, patterns) \<Rightarrow>
                       if t = NONE_hook then b else foldl (hookTry l1 l2 t) b patterns) \<le> 1"
    by (simp add: x)
qed

lemma detectHookType_range:
  "0 \<le> confidence (detectHookType parsed) \<and> confidence (detectHookType parsed) \<le> 1"
proof -
  have "0 \<le> confidence (hookLoop l1 l2 \<lparr>dtype = NONE_hook, confidence = 0, matchedText = []\<rparr> HOOK_PATTERNS)
      \<and> confidence (hookLoop l1 l2 \<lparr>dtype = NONE_hook, confidence = 0, matchedText = []\<rparr> HOOK_PATTERNS) \<le> 1"
    for l1 l2
    by (rule hookLoop_range) simp
  then show ?thesis
    by (simp add: detectHookType_def Let_def split: list.splits)
qed

lemma ctaTry_range:
  "0 \<le> confidence b \<and> confidence b \<le> 1 \<Longrightarrow>
   0 \<le> confidence (ctaTry l1 l2 t b pat) \<and> confidence (ctaTry l1 l2 t b pat) \<le> 1"
  by (simp add: ctaTry_def Let_def split: option.splits)

lemma ctaLoop_range:
  assumes "0 \<le> confidence b \<and> confidence b \<le> 1"
  shows "0 \<le> confidence (ctaLoop l1 l2 b table) \<and> confidence (ctaLoop l1 l2 b table) \<le> 1"
  unfolding ctaLoop_def
proof (rule foldl_invariant [where P = "\<lambda>b. 0 \<le> confidence b \<and> confidence b \<le> 1"])
  show "0 \<le> confidence b \<and> confidence b \<le> 1" by (rule assms)
next
  fix b :: "CTAType Detection" and x :: "CTAType \<times> regex list"
  assume b: "0 \<le> confidence b \<and> confidence b \<le> 1"
  obtain t pats where x: "x = (t, pats)" by (cases x)
  have "0 \<le> confidence (foldl (ctaTry l1 l2 t) b pats)
        \<and> confidence (foldl (ctaTry l1 l2 t) b pats) \<le> 1"
    by (rule foldl_invariant [where P = "\<lambda>b. 0 \<le> confidence b \<and> confidence b \<le> 1"])
       (use b ctaTry_range in auto)
  with b show "0 \<le> confidence (case x of (t, patterns) \<Rightarrow>
                       if t = NONE_cta then b else foldl (ctaTry l1 l2 t) b patterns)
             \<and> confidence (case x of (t, patterns) \<Rightarrow>
                       if t = NONE_cta then b else foldl (ctaTry l1 l2 t) b patterns) \<le> 1"
    by (simp add: x)
qed

lemma detectCTAType_range:
  "0 \<le> confidence (detectCTAType parsed) \<and> confidence (detectCTAType parsed) \<le> 1"
proof -
  have "0 \<le> confidence (ctaLoop l1 l2 \<lparr>dtype = NONE_cta, confidence = 0, matchedText = []\<rparr> CTA_PATTERNS)
      \<and> confidence (ctaLoop l1 l2 \<lparr>dtype = NONE_cta, confidence = 0, matchedText = []\<rparr> CTA_PATTERNS) \<le> 1"
    for l1 l2
    by (rule ctaLoop_range) simp
  then show ?thesis
    by (simp add: detectCTAType_def Let_def)
qed

lemma bodyTry_range:
  "0 \<le> bconfidence b \<and> bconfidence b \<le> 1 \<Longrightarrow>
   0 \<le> bconfidence (bodyTry c b entry) \<and> bconfidence (bodyTry c b entry) \<le> 1"
  by (auto simp: bodyTry_def Let_def min_def split: prod.splits)

lemma detectBodyType_range:
  "0 \<le> bconfidence (detectBodyType parsed) \<and> bconfidence (detectBodyType parsed) \<le> 1"
proof -
  have "0 \<le> bconfidence (foldl (bodyTry c) \<lparr>btype = INSIGHT_SHARING, bconfidence = 3 / 10, bstructure = js ''general''\<rparr> BODY_PATTERNS)
      \<and> bconfidence (foldl (bodyTry c) \<lparr>btype = INSIGHT_SHARING, bconfidence = 3 / 10, bstructure = js ''general''\<rparr> BODY_PATTERNS) \<le> 1"
    for c
    by (rule foldl_invariant [where P = "\<lambda>b. 0 \<le> bconfidence b \<and> bconfidence b \<le> 1"])
       (use bodyTry_range in auto)
  then show ?thesis
    by (simp add: detectBodyType_def Let_def)
qed


lemma hookScore_range:
  assumes "0 \<le> hookConfidence fp" "hookConfidence fp \<le> 1"
  shows "0 \<le> calculateHookScore fp \<and> calculateHookScore fp \<le> 25"
  using assms by (auto simp: calculateHookScore_def Let_def min_def)

lemma bodyScore_range:
  assumes "0 \<le> bodyConfidence fp" "bodyConfidence fp \<le> 1"
  shows "0 \<le> calculateBodyScore parsed fp \<and> calculateBodyScore parsed fp \<le> 25"
  using assms by (auto simp: calculateBodyScore_def Let_def min_def)

lemma ctaScores_bounds: "9 \<le> ctaScores t \<or> t = NONE_cta"
  by (cases t) auto

lemma ctaScore_range:
  assumes "0 \<le> ctaConfidence fp" "ctaConfidence fp \<le> 1"
  shows "0 \<le> calculateCTAScore fp \<and> calculateCTAScore fp \<le> 15"
  using assms ctaScores_bounds [of "ctaType fp"]
  by (auto simp: calculateCTAScore_def Let_def min_def)

lemma emotionalScore_range:
  "0 \<le> calculateEmotionalScore signals \<and> calculateEmotionalScore signals \<le> 15"
  by (auto simp: calculateEmotionalScore_def Let_def min_def)

lemma formatScore_range:
  "0 \<le> calculateFormatScore parsed pf \<and> calculateFormatScore parsed pf \<le> 10"
  by (auto simp: calculateFormatScore_def Let_def min_def)

lemma platformFitScore_range:
  "0 \<le> calculatePlatformFitScore parsed pf \<and> calculatePlatformFitScore parsed pf \<le> 10"
  by (auto simp: calculatePlatformFitScore_def Let_def min_def)

lemma identify_confidences:
  "hookConfidence (identifyFormatPattern parsed pf) = confidence (detectHookType parsed)"
  "bodyConfidence (identifyFormatPattern parsed pf) = bconfidence (detectBodyType parsed)"
  "ctaConfidence (identifyFormatPattern parsed pf) = confidence (detectCTAType parsed)"
  by (simp_all add: identifyFormatPattern_def Let_def)

lemma math_round_min: "min 100 (math_round x) = math_round (min 100 x)"
proof (cases "x \<le> 100")
  case True
  then have "\<lfloor>x + 1 / 2\<rfloor> \<le> 100" by linarith
  then have "math_round x \<le> 100" by (simp add: math_round_def)
  with True show ?thesis by (simp add: min_def)
next
  case False
  then have "100 \<le> \<lfloor>x + 1 / 2\<rfloor>" by linarith
  then have "100 \<le> math_round x"
    unfolding math_round_def by (metis of_int_le_iff of_int_numeral)
  moreover have "\<lfloor>(100::rat) + 1 / 2\<rfloor> = 100" by linarith
  then have "math_round 100 = 100" by (simp add: math_round_def)
  ultimately show ?thesis using False by (simp add: min_def)
qed

lemma math_round_nonneg: "0 \<le> x \<Longrightarrow> 0 \<le> math_round x"
  unfolding math_round_def by (simp add: zero_le_floor)

lemma math_round_int: "math_round x \<in> \<int>"
  by (simp add: math_round_def)


lemma scoreTerms_bounded:
  assumes "0 \<le> hookConfidence fp" "hookConfidence fp \<le> 1"
    and "0 \<le> bodyConfidence fp" "bodyConfidence fp \<le> 1"
    and "0 \<le> ctaConfidence fp" "ctaConfidence fp \<le> 1"
  shows "list_all2 (\<lambda>t cap. 0 \<le> t \<and> t \<le> cap) (scoreTerms post parsed fp signals) termCaps"
  using hookScore_range [OF assms(1,2)] bodyScore_range [OF assms(3,4), of parsed]
    ctaScore_range [OF assms(5,6)] emotionalScore_range [of signals]
    formatScore_range [of parsed "platform post"] platformFitScore_range [of parsed "platform post"]
  by (simp add: scoreTerms_def termCaps_def)

lemma bounded_sum_nonneg:
  "list_all2 (\<lambda>t cap. 0 \<le> t \<and> t \<le> cap) ts caps \<Longrightarrow> 0 \<le> sum_list (ts :: rat list)"
  by (induction ts caps rule: list_all2_induct) auto

lemma foldl_plus_sum: "foldl (+) a ts = a + sum_list (ts :: rat list)"
  by (induction ts arbitrary: a) (auto simp: add.assoc)

lemma virality_formula:
  assumes "0 \<le> sum_list (scoreTerms post parsed fp signals)"
  shows "calculateViralityScore post parsed fp signals
       = math_round (clamp 0 100 (sum_list (scoreTerms post parsed fp signals) * engagementBoost post))"
proof -
  let ?s = "sum_list (scoreTerms post parsed fp signals)"
  have boost: "1 \<le> engagementBoost post"
    by (simp add: engagementBoost_def split: option.splits)
  have nn: "0 \<le> ?s * engagementBoost post"
    using assms boost by simp
  have cl: "clamp 0 100 (?s * engagementBoost post) = min 100 (?s * engagementBoost post)"
    using nn by (simp add: clamp_def max_def min_def)
  show ?thesis
    unfolding cl
    by (simp add: calculateViralityScore_def Let_def foldl_plus_sum engagementBoost_def
          math_round_min split: option.splits)
qed


text \<open>
  C4. For every post the three confidences of \<open>identifyFormatPattern\<close> lie in [0,1].
  The six terms of the score lie between 0 and their caps 25, 25, 15, 15, 10, 10; the
  score that \<open>analyzePost\<close> reports is \<open>calculateViralityScore\<close> of the post, which is
  the sum of the six terms, multiplied by 1.1 exactly when the engagement rate exceeds
  5, clamped to [0,100] and rounded; it is an integer between 0 and 100.
\<close>

theorem virality_score_range:
  "(let parsed = parsePostContent (content post);
        fp = identifyFormatPattern parsed (platform post);
        signals = extractViralSignals parsed (platform post)
    in 0 \<le> hookConfidence fp \<and> hookConfidence fp \<le> 1
       \<and> 0 \<le> bodyConfidence fp \<and> bodyConfidence fp \<le> 1
       \<and> 0 \<le> ctaConfidence fp \<and> ctaConfidence fp \<le> 1
       \<and> list_all2 (\<lambda>t cap. 0 \<le> t \<and> t \<le> cap) (scoreTerms post parsed fp signals) termCaps
       \<and> viralityScore (analyzePost post) = calculateViralityScore post parsed fp signals
       \<and> calculateViralityScore post parsed fp signals
           = math_round (clamp 0 100
               (sum_list (scoreTerms post parsed fp signals) * engagementBoost post))
       \<and> viralityScore (analyzePost post) \<in> \<int>
       \<and> 0 \<le> viralityScore (analyzePost post)
       \<and> viralityScore (analyzePost post) \<le> 100)"
proof -
  define parsed where "parsed = parsePostContent (content post)"
  define fp where "fp = identifyFormatPattern parsed (platform post)"
  define signals where "signals = extractViralSignals parsed (platform post)"
  have hook: "0 \<le> hookConfidence fp" "hookConfidence fp \<le> 1"
    using detectHookType_range [of parsed] by (simp_all add: fp_def identify_confidences)
  have body: "0 \<le> bodyConfidence fp" "bodyConfidence fp \<le> 1"
    using detectBodyType_range [of parsed] by (simp_all add: fp_def identify_confidences)
  have cta: "0 \<le> ctaConfidence fp" "ctaConfidence fp \<le> 1"
    using detectCTAType_range [of parsed] by (simp_all add: fp_def identify_confidences)
  have terms: "list_all2 (\<lambda>t cap. 0 \<le> t \<and> t \<le> cap) (scoreTerms post parsed fp signals) termCaps"
    by (rule scoreTerms_bounded [OF hook body cta])
  have sum: "0 \<le> sum_list (scoreTerms post parsed fp signals)"
    by (rule bounded_sum_nonneg [OF terms])
  have same: "viralityScore (analyzePost post) = calculateViralityScore post parsed fp signals"
    by (simp add: analyzePost_def Let_def parsed_def fp_def signals_def)
  have formula: "calculateViralityScore post parsed fp signals
      = math_round (clamp 0 100
          (sum_list (scoreTerms post parsed fp signals) * engagementBoost post))"
    by (rule virality_formula [OF sum])
  have lo: "0 \<le> clamp 0 100 (sum_list (scoreTerms post parsed fp signals) * engagementBoost post)"
    by (simp add: clamp_def)
  have hi: "clamp 0 100 (sum_list (scoreTerms post parsed fp signals) * engagementBoost post) \<le> 100"
    by (simp add: clamp_def)
  have "math_round (clamp 0 100
          (sum_list (scoreTerms post parsed fp signals) * engagementBoost post)) \<le> 100"
    using math_round_min [of "clamp 0 100
          (sum_list (scoreTerms post parsed fp signals) * engagementBoost post)"] hi
    by (simp add: min_def split: if_splits)
  then have range: "viralityScore (analyzePost post) \<in> \<int>"
      "0 \<le> viralityScore (analyzePost post)" "viralityScore (analyzePost post) \<le> 100"
    using math_round_nonneg [OF lo] by (simp_all add: same formula math_round_int)
  show ?thesis
    unfolding Let_def
    using hook body cta terms same formula range
    unfolding parsed_def fp_def signals_def
    by blast
qed

theorem virality_score_range_witness:
  "(let parsed = parsePostContent (content post1);
        fp = identifyFormatPattern parsed (platform post1);
        signals = extractViralSignals parsed (platform post1)
    in 0 \<le> hookConfidence fp \<and> hookConfidence fp \<le> 1
       \<and> 0 \<le> bodyConfidence fp \<and> bodyConfidence fp \<le> 1
       \<and> 0 \<le> ctaConfidence fp \<and> ctaConfidence fp \<le> 1
       \<and> list_all2 (\<lambda>t cap. 0 \<le> t \<and> t \<le> cap) (scoreTerms post1 parsed fp signals) termCaps
       \<and> viralityScore (analyzePost post1) = calculateViralityScore post1 parsed fp signals
       \<and> calculateViralityScore post1 parsed fp signals
           = math_round (clamp 0 100
               (sum_list (scoreTerms post1 parsed fp signals) * engagementBoost post1))
       \<and> viralityScore (analyzePost post1) \<in> \<int>
       \<and> 0 \<le> viralityScore (analyzePost post1)
       \<and> viralityScore (analyzePost post1) \<le> 100)"
  using virality_score_range [of post1] .

section \<open>Format store: the map operations\<close>

lemma store_delete_absent: "k \<notin> set (map fst s) \<Longrightarrow> store_delete k s = s"
  by (induction s) (auto simp: store_delete_def)

lemma map_of_absent: "k \<notin> set (map fst s) \<Longrightarrow> map_of s k = None"
  by (simp add: map_of_eq_None_iff)

lemma seeded_keys:
  "map fst (seededStore clk) =
     [js ''linkedin-question-listicle'', js ''linkedin-story-lesson'', js ''twitter-bold-insight'']"
  unfolding seededStore_def initializeDefaultFormats_def defaultFormats_def store_has_def
  by (simp add: js_def)

lemma store_get_set: "store_get (store_set k v s) k' = (if k' = k then Some v else store_get s k')"
  by (induction s) (auto simp: store_get_def)

lemma store_set_new: "map_of s k = None \<Longrightarrow> store_set k v s = s @ [(k, v)]"
  by (induction s) (auto split: if_splits)

lemma store_set_same: "map_of s k = Some v \<Longrightarrow> store_set k v s = s"
  by (induction s) (auto split: if_splits)

lemma store_set_keys:
  "map fst (store_set k v s) = (if k \<in> set (map fst s) then map fst s else map fst s @ [k])"
  by (induction s) (auto simp: rev_image_eqI)

lemma store_set_append_last:
  "map_of s k = None \<Longrightarrow> store_set k v (s @ [(k, v')]) = s @ [(k, v)]"
  by (induction s) (auto split: if_splits)

lemma filter_key_absent: "map_of s k = None \<Longrightarrow> filter (\<lambda>e. fst e = k) s = []"
  by (induction s) (auto split: if_splits)

lemma generateFormatId_triad:
  "hookType a = hookType b \<Longrightarrow> bodyType a = bodyType b \<Longrightarrow> ctaType a = ctaType b \<Longrightarrow>
   generateFormatId a pf = generateFormatId b pf"
  by (simp add: generateFormatId_def)

lemma learn_existing:
  assumes "store_get s (generateFormatId (formatPattern (analysisFor post ar)) (platform post)) = Some f"
  shows "learnFromPost post ar clk s =
     (f\<lparr>effectivenessScore := calculateUpdatedEffectiveness (effectivenessScore f)
            (viralityScore (analysisFor post ar)) (usageCount f),
        usageCount := usageCount f + 1, fp_updatedAt := clk 0\<rparr>,
      store_set (generateFormatId (formatPattern (analysisFor post ar)) (platform post))
        (f\<lparr>effectivenessScore := calculateUpdatedEffectiveness (effectivenessScore f)
            (viralityScore (analysisFor post ar)) (usageCount f),
        usageCount := usageCount f + 1, fp_updatedAt := clk 0\<rparr>) s)"
  using assms by (simp add: learnFromPost_def Let_def)

lemma learn_new:
  assumes "store_get s (generateFormatId (formatPattern (analysisFor post ar)) (platform post)) = None"
  shows "effectivenessScore (fst (learnFromPost post ar clk s)) = viralityScore (analysisFor post ar)"
    and "usageCount (fst (learnFromPost post ar clk s)) = 1"
    and "fp_id (fst (learnFromPost post ar clk s))
          = generateFormatId (formatPattern (analysisFor post ar)) (platform post)"
    and "snd (learnFromPost post ar clk s)
          = s @ [(generateFormatId (formatPattern (analysisFor post ar)) (platform post),
                  fst (learnFromPost post ar clk s))]"
  using assms by (simp_all add: learnFromPost_def Let_def store_set_new store_get_def)

lemma triad_id:
  "generateFormatId (formatPattern (triadAnalysis x)) twitter
     = js ''twitter-bold-statement-listicle-share''"
  by (simp add: generateFormatId_def triadAnalysis_def toLowerCase_def lowerUnit_def isDigit_def
        js_def)

lemma triad_id_absent:
  "store_get (seededStore clock0) (generateFormatId (formatPattern (triadAnalysis x)) twitter) = None"
  unfolding store_get_def triad_id
  by (rule map_of_absent) (simp add: seeded_keys js_def)

lemma batchLearn_snd:
  "snd (batchLearn (post # posts) clk s)
     = snd (batchLearn posts (\<lambda>n. clk (n + 2)) (snd (learnFromPost post None clk s)))"
  by (simp split: prod.splits)

section \<open>Format store: unknown ids\<close>

text \<open>
  C8. For an id that is not a key of the store, \<open>getFormatById\<close> returns undefined
  (\<open>None\<close>), \<open>updateFormat\<close> returns null (\<open>None\<close>) and \<open>deleteFormat\<close> returns false;
  each is a value, not an exception, and the store is left as it was.
\<close>

theorem unknown_id_not_found:
  assumes "k \<notin> set (map fst s)"
  shows "getFormatById k s = None
       \<and> updateFormat k updates clk s = (None, s)
       \<and> deleteFormat k s = (False, s)"
  using assms
  by (simp add: getFormatById_def updateFormat_def deleteFormat_def store_get_def
        store_has_def map_of_absent store_delete_absent)

theorem unknown_id_not_found_witness:
  "js ''no-such-format'' \<notin> set (map fst (seededStore clock0))
   \<and> getFormatById (js ''no-such-format'') (seededStore clock0) = None
   \<and> updateFormat (js ''no-such-format'') (noUpdates\<lparr>u_usageCount := Some 7\<rparr>) clock0
        (seededStore clock0) = (None, seededStore clock0)
   \<and> deleteFormat (js ''no-such-format'') (seededStore clock0) = (False, seededStore clock0)"
proof -
  have absent: "js ''no-such-format'' \<notin> set (map fst (seededStore clock0))"
    unfolding seeded_keys by (simp add: js_def)
  from unknown_id_not_found [OF absent] absent show ?thesis
    by blast
qed

section \<open>Listing the stored formats\<close>

text \<open>
  C6. With a platform argument \<open>getStoredFormats\<close> returns the filtered formats at
  once, in stored order; only the call without a platform sorts by descending
  effectiveness. On the seeded store the linkedin formats come back with scores 75, 80.
\<close>

theorem getStoredFormats_platform_unsorted:
  "map effectivenessScore (getStoredFormats (Some linkedin) (seededStore clock0)) = [75, 80]
   \<and> map effectivenessScore (getStoredFormats None (seededStore clock0)) = [80, 75, 70]"
  unfolding seededStore_def initializeDefaultFormats_def defaultFormats_def store_has_def
    getStoredFormats_def store_values_def
  by (simp add: js_def)

section \<open>Learning: the moving average\<close>

lemma ema_weight_one: "calculateUpdatedEffectiveness 40 80 1 = 52"
  by (simp add: calculateUpdatedEffectiveness_def Let_def)

lemma ema_general:
  "u + 1 \<noteq> 0 \<Longrightarrow>
   calculateUpdatedEffectiveness old new u
     = old * (1 - min (3 / 10) (1 / (u + 1))) + new * min (3 / 10) (1 / (u + 1))"
  by (simp add: calculateUpdatedEffectiveness_def Let_def)

lemma ema_infinite:
  "u + 1 = 0 \<Longrightarrow> calculateUpdatedEffectiveness old new u = old * (1 - 3 / 10) + new * (3 / 10)"
  by (simp add: calculateUpdatedEffectiveness_def Let_def)

text \<open>
  C2. A learn on a format that is stored sets its \<open>effectivenessScore\<close> to
  \<open>old * (1 - w) + new * w\<close> with \<open>w = min(0.3, 1 / (usageCount + 1))\<close> and adds 1 to
  its \<open>usageCount\<close>; the format stays under its key and no key is added. (For
  \<open>usageCount = -1\<close> the quotient is Infinity in the runtime and \<open>w\<close> is 0.3.) Starting
  from a store with no format under the id of the triad (twitter, BOLD_STATEMENT,
  LISTICLE, SHARE), two learns of that triad with scores 40 and 80 leave exactly one
  entry under that id, with \<open>usageCount = 2\<close> and \<open>effectivenessScore = 52\<close>.
\<close>

theorem learn_ema:
  "(store_get s (generateFormatId (formatPattern (analysisFor post ar)) (platform post)) = Some f
      \<and> usageCount f \<noteq> - 1
    \<longrightarrow> effectivenessScore (fst (learnFromPost post ar clk s))
          = effectivenessScore f * (1 - min (3 / 10) (1 / (usageCount f + 1)))
            + viralityScore (analysisFor post ar) * min (3 / 10) (1 / (usageCount f + 1))
        \<and> usageCount (fst (learnFromPost post ar clk s)) = usageCount f + 1
        \<and> store_get (snd (learnFromPost post ar clk s))
             (generateFormatId (formatPattern (analysisFor post ar)) (platform post))
            = Some (fst (learnFromPost post ar clk s))
        \<and> map fst (snd (learnFromPost post ar clk s)) = map fst s)
   \<and> (store_get sm (generateFormatId (formatPattern (analysisFor pm arm)) (platform pm)) = Some fm
      \<and> usageCount fm = - 1
    \<longrightarrow> effectivenessScore (fst (learnFromPost pm arm clkm sm))
          = effectivenessScore fm * (1 - 3 / 10) + viralityScore (analysisFor pm arm) * (3 / 10)
        \<and> usageCount (fst (learnFromPost pm arm clkm sm)) = 0)
   \<and> (platform pa = twitter \<and> platform pb = twitter
       \<and> hookType (formatPattern (analysisFor pa ara)) = BOLD_STATEMENT
       \<and> bodyType (formatPattern (analysisFor pa ara)) = LISTICLE
       \<and> ctaType (formatPattern (analysisFor pa ara)) = SHARE
       \<and> hookType (formatPattern (analysisFor pb arb)) = BOLD_STATEMENT
       \<and> bodyType (formatPattern (analysisFor pb arb)) = LISTICLE
       \<and> ctaType (formatPattern (analysisFor pb arb)) = SHARE
       \<and> viralityScore (analysisFor pa ara) = 40
       \<and> viralityScore (analysisFor pb arb) = 80
       \<and> store_get st (generateFormatId (formatPattern (analysisFor pa ara)) twitter) = None
    \<longrightarrow> (let s1 = snd (learnFromPost pa ara clka st);
             r2 = learnFromPost pb arb clkb s1
         in filter (\<lambda>e. fst e = generateFormatId (formatPattern (analysisFor pa ara)) twitter)
              (snd r2)
              = [(generateFormatId (formatPattern (analysisFor pa ara)) twitter, fst r2)]
            \<and> usageCount (fst r2) = 2
            \<and> effectivenessScore (fst r2) = 52))"
proof (intro conjI impI)
  assume a: "store_get s (generateFormatId (formatPattern (analysisFor post ar)) (platform post)) = Some f
      \<and> usageCount f \<noteq> - 1"
  then have ex: "store_get s (generateFormatId (formatPattern (analysisFor post ar)) (platform post)) = Some f"
    and u: "usageCount f + 1 \<noteq> 0"
    by auto
  show "effectivenessScore (fst (learnFromPost post ar clk s))
          = effectivenessScore f * (1 - min (3 / 10) (1 / (usageCount f + 1)))
            + viralityScore (analysisFor post ar) * min (3 / 10) (1 / (usageCount f + 1))"
    by (simp add: learn_existing [OF ex] ema_general [OF u])
  show "usageCount (fst (learnFromPost post ar clk s)) = usageCount f + 1"
    by (simp add: learn_existing [OF ex])
  show "store_get (snd (learnFromPost post ar clk s))
             (generateFormatId (formatPattern (analysisFor post ar)) (platform post))
            = Some (fst (learnFromPost post ar clk s))"
    by (simp add: learn_existing [OF ex] store_get_set)
  have "generateFormatId (formatPattern (analysisFor post ar)) (platform post) \<in> set (map fst s)"
    using ex by (auto simp: store_get_def dest: map_of_SomeD intro: rev_image_eqI)
  then show "map fst (snd (learnFromPost post ar clk s)) = map fst s"
    by (simp add: learn_existing [OF ex] store_set_keys)
next
  assume b: "store_get sm (generateFormatId (formatPattern (analysisFor pm arm)) (platform pm)) = Some fm
      \<and> usageCount fm = - 1"
  then have ex: "store_get sm (generateFormatId (formatPattern (analysisFor pm arm)) (platform pm)) = Some fm"
    and u: "usageCount fm + 1 = 0"
    by auto
  show "effectivenessScore (fst (learnFromPost pm arm clkm sm))
          = effectivenessScore fm * (1 - 3 / 10) + viralityScore (analysisFor pm arm) * (3 / 10)"
    by (simp add: learn_existing [OF ex] ema_infinite [OF u])
  show "usageCount (fst (learnFromPost pm arm clkm sm)) = 0"
    using u by (simp add: learn_existing [OF ex])
next
  assume h: "platform pa = twitter \<and> platform pb = twitter
       \<and> hookType (formatPattern (analysisFor pa ara)) = BOLD_STATEMENT
       \<and> bodyType (formatPattern (analysisFor pa ara)) = LISTICLE
       \<and> ctaType (formatPattern (analysisFor pa ara)) = SHARE
       \<and> hookType (formatPattern (analysisFor pb arb)) = BOLD_STATEMENT
       \<and> bodyType (formatPattern (analysisFor pb arb)) = LISTICLE
       \<and> ctaType (formatPattern (analysisFor pb arb)) = SHARE
       \<and> viralityScore (analysisFor pa ara) = 40
       \<and> viralityScore (analysisFor pb arb) = 80
       \<and> store_get st (generateFormatId (formatPattern (analysisFor pa ara)) twitter) = None"
  define k where "k = generateFormatId (formatPattern (analysisFor pa ara)) twitter"
  have k1: "generateFormatId (formatPattern (analysisFor pa ara)) (platform pa) = k"
    using h by (simp add: k_def)
  have k2: "generateFormatId (formatPattern (analysisFor pb arb)) (platform pb) = k"
    unfolding k_def using h by (auto intro: generateFormatId_triad)
  have none: "store_get st k = None"
    using h by (simp add: k_def)
  define f1 where "f1 = fst (learnFromPost pa ara clka st)"
  define s1 where "s1 = snd (learnFromPost pa ara clka st)"
  have s1: "s1 = st @ [(k, f1)]"
    unfolding s1_def f1_def using learn_new(4) [of st pa ara clka] none k1 by simp
  have f1: "effectivenessScore f1 = 40" "usageCount f1 = 1"
    unfolding f1_def using learn_new(1,2) [of st pa ara clka] none k1 h by simp_all
  have get1: "store_get s1 (generateFormatId (formatPattern (analysisFor pb arb)) (platform pb)) = Some f1"
    using none by (simp add: k2 s1 store_get_def map_add_def)
  define r2 where "r2 = learnFromPost pb arb clkb s1"
  have r2: "r2 = (f1\<lparr>effectivenessScore := calculateUpdatedEffectiveness (effectivenessScore f1)
            (viralityScore (analysisFor pb arb)) (usageCount f1),
        usageCount := usageCount f1 + 1, fp_updatedAt := clkb 0\<rparr>,
      store_set k
        (f1\<lparr>effectivenessScore := calculateUpdatedEffectiveness (effectivenessScore f1)
            (viralityScore (analysisFor pb arb)) (usageCount f1),
        usageCount := usageCount f1 + 1, fp_updatedAt := clkb 0\<rparr>) s1)"
    unfolding r2_def using learn_existing [OF get1, of clkb] by (simp add: k2)
  have snd2: "snd r2 = st @ [(k, fst r2)]"
    using none by (simp add: r2 s1 store_set_append_last store_get_def)
  have "filter (\<lambda>e. fst e = k) (snd r2) = [(k, fst r2)]"
    using none by (simp add: snd2 filter_key_absent store_get_def)
  moreover have "usageCount (fst r2) = 2"
    by (simp add: r2 f1)
  moreover have "effectivenessScore (fst r2) = 52"
    using h by (simp add: r2 f1 ema_weight_one)
  ultimately show "let s1 = snd (learnFromPost pa ara clka st);
             r2 = learnFromPost pb arb clkb s1
         in filter (\<lambda>e. fst e = generateFormatId (formatPattern (analysisFor pa ara)) twitter)
              (snd r2)
              = [(generateFormatId (formatPattern (analysisFor pa ara)) twitter, fst r2)]
            \<and> usageCount (fst r2) = 2
            \<and> effectivenessScore (fst r2) = 52"
    unfolding Let_def r2_def s1_def k_def by blast
qed


theorem learn_ema_witness:
  "store_get (seededStore clock0) (generateFormatId (formatPattern (triadAnalysis 40)) twitter) = None
   \<and> (let r1 = learnFromPost tweet (Some (triadAnalysis 40)) clock0 (seededStore clock0);
           r2 = learnFromPost tweet (Some (triadAnalysis 80)) clock0 (snd r1)
       in store_get (snd r1) (generateFormatId (formatPattern (triadAnalysis 80)) twitter)
            = Some (fst r1)
          \<and> usageCount (fst r1) \<noteq> - 1
          \<and> effectivenessScore (fst r2)
              = effectivenessScore (fst r1) * (1 - min (3 / 10) (1 / (usageCount (fst r1) + 1)))
                + 80 * min (3 / 10) (1 / (usageCount (fst r1) + 1))
          \<and> usageCount (fst r2) = usageCount (fst r1) + 1
          \<and> filter (\<lambda>e. fst e = generateFormatId (formatPattern (triadAnalysis 40)) twitter)
               (snd r2)
              = [(generateFormatId (formatPattern (triadAnalysis 40)) twitter, fst r2)]
          \<and> usageCount (fst r2) = 2
          \<and> effectivenessScore (fst r2) = 52)
   \<and> store_get (store_set (generateFormatId (formatPattern (triadAnalysis 80)) twitter)
          (brokenCount (hd (defaultFormats clock0))) (seededStore clock0))
        (generateFormatId (formatPattern (triadAnalysis 80)) twitter)
       = Some (brokenCount (hd (defaultFormats clock0)))
   \<and> usageCount (brokenCount (hd (defaultFormats clock0))) = - 1
   \<and> effectivenessScore (fst (learnFromPost tweet (Some (triadAnalysis 80)) clock0
          (store_set (generateFormatId (formatPattern (triadAnalysis 80)) twitter)
             (brokenCount (hd (defaultFormats clock0))) (seededStore clock0))))
       = effectivenessScore (brokenCount (hd (defaultFormats clock0))) * (1 - 3 / 10)
         + 80 * (3 / 10)"
proof -
  define r1 where "r1 = learnFromPost tweet (Some (triadAnalysis 40)) clock0 (seededStore clock0)"
  define r2 where "r2 = learnFromPost tweet (Some (triadAnalysis 80)) clock0 (snd r1)"
  have an: "analysisFor tweet (Some a) = a" for a
    by (simp add: analysisFor_def)
  have pl: "platform tweet = twitter"
    by (simp add: tweet_def)
  have tri: "hookType (formatPattern (triadAnalysis x)) = BOLD_STATEMENT"
    "bodyType (formatPattern (triadAnalysis x)) = LISTICLE"
    "ctaType (formatPattern (triadAnalysis x)) = SHARE"
    "viralityScore (triadAnalysis x) = x" for x
    by (simp_all add: triadAnalysis_def)
  have none: "store_get (seededStore clock0)
      (generateFormatId (formatPattern (analysisFor tweet (Some (triadAnalysis 40)))) (platform tweet)) = None"
    unfolding an pl by (rule triad_id_absent)
  have u1: "usageCount (fst r1) = 1"
    unfolding r1_def by (rule learn_new(2) [OF none])
  have s1: "snd r1 = seededStore clock0
      @ [(generateFormatId (formatPattern (triadAnalysis 40)) twitter, fst r1)]"
    unfolding r1_def using learn_new(4) [OF none, of clock0] by (simp add: an pl)
  have get1: "store_get (snd r1)
      (generateFormatId (formatPattern (analysisFor tweet (Some (triadAnalysis 80)))) (platform tweet))
        = Some (fst r1)"
    unfolding an pl s1 triad_id
    using triad_id_absent [of 40] by (simp add: store_get_def map_add_def triad_id)
  have hyp1: "store_get (snd r1)
      (generateFormatId (formatPattern (analysisFor tweet (Some (triadAnalysis 80)))) (platform tweet))
        = Some (fst r1) \<and> usageCount (fst r1) \<noteq> - 1"
    using get1 u1 by simp
  have hyp2: "platform tweet = twitter \<and> platform tweet = twitter
       \<and> hookType (formatPattern (analysisFor tweet (Some (triadAnalysis 40)))) = BOLD_STATEMENT
       \<and> bodyType (formatPattern (analysisFor tweet (Some (triadAnalysis 40)))) = LISTICLE
       \<and> ctaType (formatPattern (analysisFor tweet (Some (triadAnalysis 40)))) = SHARE
       \<and> hookType (formatPattern (analysisFor tweet (Some (triadAnalysis 80)))) = BOLD_STATEMENT
       \<and> bodyType (formatPattern (analysisFor tweet (Some (triadAnalysis 80)))) = LISTICLE
       \<and> ctaType (formatPattern (analysisFor tweet (Some (triadAnalysis 80)))) = SHARE
       \<and> viralityScore (analysisFor tweet (Some (triadAnalysis 40))) = 40
       \<and> viralityScore (analysisFor tweet (Some (triadAnalysis 80))) = 80
       \<and> store_get (seededStore clock0)
            (generateFormatId (formatPattern (analysisFor tweet (Some (triadAnalysis 40)))) twitter) = None"
    unfolding an by (simp add: pl tri triad_id_absent)
  note inst = learn_ema [where s = "snd r1" and post = tweet and ar = "Some (triadAnalysis 80)"
      and f = "fst r1" and clk = clock0 and pa = tweet and pb = tweet
      and ara = "Some (triadAnalysis 40)" and arb = "Some (triadAnalysis 80)"
      and st = "seededStore clock0" and clka = clock0 and clkb = clock0]
  have general: "effectivenessScore (fst r2)
              = effectivenessScore (fst r1) * (1 - min (3 / 10) (1 / (usageCount (fst r1) + 1)))
                + 80 * min (3 / 10) (1 / (usageCount (fst r1) + 1))"
    "usageCount (fst r2) = usageCount (fst r1) + 1"
    using inst [THEN conjunct1, rule_format, OF hyp1] unfolding an tri r2_def by blast+
  have scenario: "filter (\<lambda>e. fst e = generateFormatId (formatPattern (triadAnalysis 40)) twitter)
               (snd r2)
              = [(generateFormatId (formatPattern (triadAnalysis 40)) twitter, fst r2)]"
    "usageCount (fst r2) = 2" "effectivenessScore (fst r2) = 52"
    using inst [THEN conjunct2, THEN conjunct2, rule_format, OF hyp2] unfolding an Let_def r2_def r1_def by blast+
  define sm where "sm = store_set (generateFormatId (formatPattern (triadAnalysis 80)) twitter)
          (brokenCount (hd (defaultFormats clock0))) (seededStore clock0)"
  have hyp3: "store_get sm
      (generateFormatId (formatPattern (analysisFor tweet (Some (triadAnalysis 80)))) (platform tweet))
        = Some (brokenCount (hd (defaultFormats clock0)))
      \<and> usageCount (brokenCount (hd (defaultFormats clock0))) = - 1"
    unfolding an pl sm_def by (simp add: store_get_set brokenCount_def)
  have infinite: "effectivenessScore (fst (learnFromPost tweet (Some (triadAnalysis 80)) clock0 sm))
       = effectivenessScore (brokenCount (hd (defaultFormats clock0))) * (1 - 3 / 10)
         + 80 * (3 / 10)"
    using learn_ema [where sm = sm and pm = tweet and arm = "Some (triadAnalysis 80)"
        and fm = "brokenCount (hd (defaultFormats clock0))" and clkm = clock0,
        THEN conjunct2, THEN conjunct1, rule_format, OF hyp3]
    unfolding an tri by blast
  have first: "store_get (seededStore clock0)
        (generateFormatId (formatPattern (triadAnalysis 40)) twitter) = None
   \<and> (let r1 = learnFromPost tweet (Some (triadAnalysis 40)) clock0 (seededStore clock0);
           r2 = learnFromPost tweet (Some (triadAnalysis 80)) clock0 (snd r1)
       in store_get (snd r1) (generateFormatId (formatPattern (triadAnalysis 80)) twitter)
            = Some (fst r1)
          \<and> usageCount (fst r1) \<noteq> - 1
          \<and> effectivenessScore (fst r2)
              = effectivenessScore (fst r1) * (1 - min (3 / 10) (1 / (usageCount (fst r1) + 1)))
                + 80 * min (3 / 10) (1 / (usageCount (fst r1) + 1))
          \<and> usageCount (fst r2) = usageCount (fst r1) + 1
          \<and> filter (\<lambda>e. fst e = generateFormatId (formatPattern (triadAnalysis 40)) twitter)
               (snd r2)
              = [(generateFormatId (formatPattern (triadAnalysis 40)) twitter, fst r2)]
          \<and> usageCount (fst r2) = 2
          \<and> effectivenessScore (fst r2) = 52)"
    unfolding Let_def
    using triad_id_absent [of 40] get1 u1 general scenario
    unfolding an pl r1_def r2_def
    by simp
  show ?thesis
    using first hyp3 infinite unfolding an pl sm_def by blast
qed

section \<open>Learning: scores stay in range\<close>











section \<open>Export and import\<close>

lemma keyed_get: "keyed s \<Longrightarrow> store_get s k = Some f \<Longrightarrow> fp_id f = k"
  by (auto simp: keyed_def store_get_def list_all_iff dest!: map_of_SomeD)

lemma store_set_all: "list_all P s \<Longrightarrow> P (k, v) \<Longrightarrow> list_all P (store_set k v s)"
  by (induction s) auto

lemma keyed_set:
  assumes "keyed s" and "fp_id v = k"
  shows "keyed (store_set k v s)"
proof -
  have "list_all (\<lambda>(k, v). fp_id v = k) (store_set k v s)"
    using assms by (intro store_set_all) (simp_all add: keyed_def)
  moreover have "distinct (map fst (store_set k v s))"
    using assms(1) by (simp add: store_set_keys keyed_def)
  ultimately show ?thesis
    by (simp add: keyed_def)
qed

lemma keyed_delete: "keyed s \<Longrightarrow> keyed (store_delete k s)"
  by (auto simp: keyed_def store_delete_def list_all_iff distinct_map_filter)

lemma keyed_learn: "keyed s \<Longrightarrow> keyed (snd (learnFromPost post ar clk s))"
proof (cases "store_get s (generateFormatId (formatPattern (analysisFor post ar)) (platform post))")
  case None
  assume "keyed s"
  then show ?thesis
    using learn_new(3) [OF None, of clk]
    by (simp add: learnFromPost_def Let_def None keyed_set)
next
  case (Some f)
  assume k: "keyed s"
  show ?thesis
    using keyed_get [OF k Some] k by (simp add: learn_existing [OF Some] keyed_set)
qed

lemma keyed_batch: "keyed s \<Longrightarrow> keyed (snd (batchLearn posts clk s))"
proof (induction posts arbitrary: s clk)
  case Nil
  then show ?case by simp
next
  case (Cons post posts)
  show ?case
    unfolding batchLearn_snd by (rule Cons.IH [OF keyed_learn [OF Cons.prems]])
qed

lemma keyed_update:
  assumes "keyed s"
  shows "keyed (snd (updateFormat k updates clk s))"
proof (cases "store_get s k")
  case None
  then show ?thesis using assms by (simp add: updateFormat_def)
next
  case (Some existing)
  have "fp_id existing = k"
    by (rule keyed_get [OF assms Some])
  then show ?thesis
    using assms by (simp add: updateFormat_def Some Let_def keyed_set)
qed

lemma keyed_importOne:
  assumes "keyed s"
  shows "keyed (importOne mergeStrategy now s format)"
proof (cases "store_get s (fp_id format)")
  case None
  then show ?thesis using assms by (simp add: importOne_def keyed_set)
next
  case (Some existing)
  have "fp_id existing = fp_id format"
    by (rule keyed_get [OF assms Some])
  then show ?thesis
    using assms by (simp add: importOne_def Some keyed_set)
qed

lemma keyed_importLoop: "keyed s \<Longrightarrow> keyed (importLoop mergeStrategy clk i formats s)"
  by (induction formats arbitrary: s i) (auto simp: keyed_importOne)

lemma keyed_default: "keyed s \<Longrightarrow> keyed (getDefaultFormat topic pf clk s)"
  by (simp add: getDefaultFormat_def Let_def keyed_set)

lemma keyed_init: "keyed s \<Longrightarrow> keyed (initializeDefaultFormats clk s)"
proof -
  have "keyed s \<Longrightarrow> keyed (foldl (\<lambda>s format. if \<not> store_has s (fp_id format)
            then store_set (fp_id format) format s else s) s fs)" for fs
    by (induction fs arbitrary: s) (auto simp: keyed_set)
  then show "keyed s \<Longrightarrow> keyed (initializeDefaultFormats clk s)"
    by (simp add: initializeDefaultFormats_def)
qed

lemma reachable_keyed: "reachable s \<Longrightarrow> keyed s"
proof (induction rule: reachable.induct)
  case (start clk)
  have "keyed []" by (simp add: keyed_def)
  then show ?case unfolding seededStore_def by (rule keyed_init)
next
  case (learn s post analysisResult clk)
  then show ?case by (simp add: keyed_learn)
next
  case (batch s posts clk)
  then show ?case by (simp add: keyed_batch)
next
  case (update s k updates clk)
  then show ?case by (simp add: keyed_update)
next
  case (delete s k)
  then show ?case by (simp add: deleteFormat_def keyed_delete)
next
  case (imported s formats mergeStrategy clk)
  then show ?case by (simp add: importFormats_def keyed_importLoop)
next
  case (cleared s)
  show ?case by (simp add: clearFormats_def keyed_def)
next
  case (matched s topic pf clk)
  then show ?case by (simp add: findBestMatch_store_def keyed_default)
next
  case (initialized s clk)
  then show ?case by (simp add: keyed_init)
qed

lemma keyed_values_stored:
  "keyed s \<Longrightarrow> list_all (\<lambda>f. store_get s (fp_id f) = Some f) (store_values s)"
  by (auto simp: keyed_def store_values_def store_get_def list_all_iff)

lemma import_stored_replace:
  "list_all (\<lambda>f. store_get s (fp_id f) = Some f) formats \<Longrightarrow>
   importLoop replace clk i formats s = s"
  by (induction formats arbitrary: i)
     (auto simp: importOne_def store_set_same store_get_def)

text \<open>
  C7. For every non-empty store that the module can reach, importing the exported
  formats with the strategy \<open>replace\<close> leaves the store as it was: the same ids in the
  same order, each with the same format.
\<close>

theorem import_export_roundtrip:
  assumes "reachable s" and "s \<noteq> []"
  shows "importFormats (exportFormats s) replace clk s = s"
  unfolding importFormats_def exportFormats_def
  by (rule import_stored_replace [OF keyed_values_stored [OF reachable_keyed [OF assms(1)]]])

theorem import_export_roundtrip_witness:
  "reachable (seededStore clock0) \<and> seededStore clock0 \<noteq> []
   \<and> importFormats (exportFormats (seededStore clock0)) replace clock0 (seededStore clock0)
       = seededStore clock0"
proof -
  have r: "reachable (seededStore clock0)"
    by (rule reachable.start)
  have n: "seededStore clock0 \<noteq> []"
    using seeded_keys [of clock0] by auto
  from import_export_roundtrip [OF r n] r n show ?thesis
    by blast
qed

section \<open>Hook detection: which match wins\<close>

lemma hookTry_ruleMatch:
  "hookTry l1 l2 t b pat =
     (case ruleMatch l1 l2 t pat of None \<Rightarrow> b
      | Some d \<Rightarrow> if confidence d > confidence b then d else b)"
  by (simp add: hookTry_def ruleMatch_def Let_def split: option.splits)

lemma foldl_hookTry:
  "foldl (hookTry l1 l2 t) b pats
     = foldl (\<lambda>b d. if confidence d > confidence b then d else b) b
         (List.map_filter (ruleMatch l1 l2 t) pats)"
  by (induction pats arbitrary: b)
     (auto simp: hookTry_ruleMatch List.map_filter_simps split: option.splits)

lemma hookLoop_candidates:
  "hookLoop l1 l2 b table
     = foldl (\<lambda>b d. if confidence d > confidence b then d else b) b (hookCandidates l1 l2 table)"
  unfolding hookLoop_def hookCandidates_def
  by (induction table arbitrary: b) (auto simp: foldl_hookTry)

lemma ruleMatch_confidence: "ruleMatch l1 l2 t pat = Some d \<Longrightarrow> ruleConfidence d"
  by (auto simp: ruleMatch_def ruleConfidence_def split: option.splits if_splits)

lemma map_filter_confidence: "list_all ruleConfidence (List.map_filter (ruleMatch l1 l2 t) pats)"
  by (induction pats)
     (auto simp: List.map_filter_simps dest: ruleMatch_confidence split: option.splits)

lemma candidates_confidence: "list_all ruleConfidence (hookCandidates l1 l2 table)"
  unfolding hookCandidates_def
  by (induction table) (auto simp: map_filter_confidence)

lemma pick_after_nine:
  "startsAtZero b \<Longrightarrow> list_all ruleConfidence ds \<Longrightarrow>
   foldl (\<lambda>b d. if confidence d > confidence b then d else b) b ds = b"
  by (induction ds) (auto simp: startsAtZero_def ruleConfidence_def)

lemma pick_after_seven:
  "ruleConfidence b \<Longrightarrow> \<not> startsAtZero b \<Longrightarrow> list_all ruleConfidence ds \<Longrightarrow>
   foldl (\<lambda>b d. if confidence d > confidence b then d else b) b ds
     = (case find startsAtZero ds of Some d \<Rightarrow> d | None \<Rightarrow> b)"
proof (induction ds)
  case Nil
  then show ?case by simp
next
  case (Cons d ds)
  show ?case
  proof (cases "startsAtZero d")
    case True
    then have "confidence d > confidence b"
      using Cons.prems(1,2) by (auto simp: startsAtZero_def ruleConfidence_def)
    then show ?thesis
      using True Cons.prems(3) by (simp add: pick_after_nine)
  next
    case False
    then have "\<not> confidence d > confidence b"
      using Cons.prems by (auto simp: startsAtZero_def ruleConfidence_def)
    then show ?thesis
      using False Cons by simp
  qed
qed

lemma highest_earliestBest:
  assumes "list_all ruleConfidence ds"
  shows "highest ds = earliestBest ds"
proof (cases ds)
  case Nil
  then show ?thesis by (simp add: highest_def earliestBest_def)
next
  case (Cons d ds')
  have d: "ruleConfidence d" and ds': "list_all ruleConfidence ds'"
    using assms Cons by simp_all
  have first: "confidence d > confidence noHook"
    using d by (auto simp: ruleConfidence_def noHook_def)
  show ?thesis
  proof (cases "startsAtZero d")
    case True
    then show ?thesis
      using first ds' by (simp add: Cons highest_def earliestBest_def pick_after_nine)
  next
    case False
    then show ?thesis
      using first d ds' by (simp add: Cons highest_def earliestBest_def pick_after_seven split: option.splits)
  qed
qed

lemma endsWith_question_tail:
  "endsWith (c # d # ds) [63] = endsWith (d # ds) [63]"
proof -
  obtain x xs where r: "rev ds @ [d] = x # xs"
    by (cases "rev ds @ [d]") auto
  show ?thesis
    by (simp add: endsWith_def r)
qed

lemma search_question_end:
  "endsWith s [63] \<Longrightarrow> search no_flags (Seq (Chars [63]) Eol) (p, s) i \<noteq> None"
proof (induction s arbitrary: p i)
  case Nil
  then show ?case by (simp add: endsWith_def)
next
  case (Cons c s)
  show ?case
  proof (cases s)
    case Nil
    with Cons.prems show ?thesis by (simp add: endsWith_def no_flags_def)
  next
    case (Cons d ds)
    have tail: "endsWith (d # ds) [63]"
      using Cons.prems by (simp add: Cons endsWith_question_tail)
    have "search no_flags (Seq (Chars [63]) Eol) (Some c, d # ds) (i + 1) \<noteq> None"
      using Cons.IH [of "Some c" "i + 1"] tail Cons by simp
    then show ?thesis
      by (auto simp: Cons no_flags_def)
  qed
qed

lemma lower_keeps_question: "endsWith l [63] \<Longrightarrow> endsWith (toLowerCase l) [63]"
proof -
  assume a: "endsWith l [63]"
  then obtain x xs where r: "rev l = x # xs"
    by (cases "rev l") (auto simp: endsWith_def)
  with a have "x = 63" by (simp add: endsWith_def)
  then show ?thesis
    by (simp add: endsWith_def toLowerCase_def rev_map r lowerUnit_def)
qed

lemma candidate_member:
  assumes "(t, ps) \<in> set table" and "t \<noteq> NONE_hook" and "pat \<in> set ps"
    and "ruleMatch l1 l2 t pat = Some d"
  shows "d \<in> set (hookCandidates l1 l2 table)"
proof -
  have "d \<in> set (List.map_filter (ruleMatch l1 l2 t) ps)"
    using assms(3,4) by (force simp: List.map_filter_def)
  then show ?thesis
    using assms(1,2) by (force simp: hookCandidates_def)
qed

lemma question_rule_listed:
  "\<exists>ps. (QUESTION, ps) \<in> set HOOK_PATTERNS \<and> questionMarkAtEnd \<in> set ps"
  by (simp add: HOOK_PATTERNS_def)

lemma no_candidates_no_question:
  assumes "hookCandidates (toLowerCase l) l2 HOOK_PATTERNS = []"
  shows "\<not> endsWith l (js ''?'')"
proof
  assume "endsWith l (js ''?'')"
  then have "endsWith (toLowerCase l) [63]"
    by (intro lower_keeps_question) (simp add: js_def)
  then have "re_match questionMarkAtEnd (toLowerCase l) \<noteq> None"
    using search_question_end [of "toLowerCase l" None 0]
    by (simp add: re_match_def questionMarkAtEnd_def str_def js_def)
  then obtain d where d: "ruleMatch (toLowerCase l) l2 QUESTION questionMarkAtEnd = Some d"
    by (auto simp: ruleMatch_def matchEither_def split: option.splits)
  obtain ps where "(QUESTION, ps) \<in> set HOOK_PATTERNS" "questionMarkAtEnd \<in> set ps"
    using question_rule_listed by blast
  then have "d \<in> set (hookCandidates (toLowerCase l) l2 HOOK_PATTERNS)"
    using d by (intro candidate_member [where t = QUESTION]) simp_all
  with assms show False by simp
qed

text \<open>
  C5, amended. In hook detection every rule of every hook type other than NONE is
  tried, in the order of the table, on the lower-cased first line and, where that does
  not match, on the lower-cased first two lines joined; a match has confidence 0.9 when
  it starts at position 0 and 0.7 otherwise. The result is the earliest match of the
  highest confidence among all these matches (so a later rule of a type replaces an
  earlier 0.7 match of the same type by a 0.9 match); it is replaced by QUESTION at
  confidence 0.85 when its confidence is below 0.8 and the first line ends in a
  question mark, and it is NONE at confidence 0 when no rule matches.
\<close>

theorem detectHookType_earliest_best:
  "(let firstLine = (case lines parsed of [] \<Rightarrow> [] | l # _ \<Rightarrow> toLowerCase l);
        firstTwoLines = toLowerCase (join (js '' '') (take 2 (lines parsed)));
        candidates = hookCandidates firstLine firstTwoLines HOOK_PATTERNS;
        best = earliestBest candidates
    in detectHookType parsed =
         (case lines parsed of
            [] \<Rightarrow> best
          | l # _ \<Rightarrow>
              if endsWith l (js ''?'') \<and> confidence best < 8 / 10
              then \<lparr>dtype = QUESTION, confidence = 85 / 100, matchedText = l\<rparr>
              else best)
       \<and> list_all ruleConfidence candidates
       \<and> (candidates = [] \<longrightarrow> detectHookType parsed = noHook))"
proof -
  define firstLine where "firstLine = (case lines parsed of [] \<Rightarrow> [] | l # _ \<Rightarrow> toLowerCase l)"
  define firstTwoLines where "firstTwoLines = toLowerCase (join (js '' '') (take 2 (lines parsed)))"
  define candidates where "candidates = hookCandidates firstLine firstTwoLines HOOK_PATTERNS"
  have loop: "hookLoop l1 l2 \<lparr>dtype = NONE_hook, confidence = 0, matchedText = []\<rparr> HOOK_PATTERNS
      = earliestBest (hookCandidates l1 l2 HOOK_PATTERNS)" for l1 l2
    using highest_earliestBest [OF candidates_confidence [of l1 l2 HOOK_PATTERNS]]
    by (simp add: hookLoop_candidates highest_def noHook_def)
  have code: "detectHookType parsed =
         (case lines parsed of
            [] \<Rightarrow> earliestBest candidates
          | l # _ \<Rightarrow>
              if endsWith l (js ''?'') \<and> confidence (earliestBest candidates) < 8 / 10
              then \<lparr>dtype = QUESTION, confidence = 85 / 100, matchedText = l\<rparr>
              else earliestBest candidates)"
    unfolding candidates_def firstLine_def firstTwoLines_def
    by (simp add: detectHookType_def Let_def loop)
  have conf: "list_all ruleConfidence candidates"
    unfolding candidates_def by (rule candidates_confidence)
  have none: "detectHookType parsed = noHook" if empty: "candidates = []"
  proof (cases "lines parsed")
    case Nil
    then show ?thesis
      using empty by (simp add: code earliestBest_def)
  next
    case (Cons l ls)
    have "hookCandidates (toLowerCase l) firstTwoLines HOOK_PATTERNS = []"
      using empty by (simp add: candidates_def firstLine_def Cons)
    then have "\<not> endsWith l (js ''?'')"
      by (rule no_candidates_no_question)
    then show ?thesis
      using empty by (simp add: code Cons earliestBest_def)
  qed
  show ?thesis
    unfolding Let_def
    using code conf none
    unfolding candidates_def firstLine_def firstTwoLines_def
    by blast
qed

lemma plainPost_lines: "lines (parsePostContent plainPost) = [js ''Hello world'']"
  by (simp add: parsePostContent_def plainPost_def Let_def trim_def rx_defs)

lemma plainPost_candidates:
  "hookCandidates (js ''hello world'') (js ''hello world'') HOOK_PATTERNS = []"
  by (simp add: hookCandidates_def ruleMatch_def matchEither_def HOOK_PATTERNS_def
        List.map_filter_simps questionMarkAtEnd_def rx_defs)

theorem detectHookType_earliest_best_witness:
  "hookCandidates
     (case lines (parsePostContent plainPost) of [] \<Rightarrow> [] | l # _ \<Rightarrow> toLowerCase l)
     (toLowerCase (join (js '' '') (take 2 (lines (parsePostContent plainPost)))))
     HOOK_PATTERNS = []
   \<and> detectHookType (parsePostContent plainPost) = noHook"
proof -
  have l1: "(case lines (parsePostContent plainPost) of [] \<Rightarrow> [] | l # _ \<Rightarrow> toLowerCase l)
      = js ''hello world''"
    by (simp add: plainPost_lines toLowerCase_def lowerUnit_def js_def)
  have l2: "toLowerCase (join (js '' '') (take 2 (lines (parsePostContent plainPost))))
      = js ''hello world''"
    by (simp add: plainPost_lines toLowerCase_def lowerUnit_def js_def)
  have empty: "hookCandidates
     (case lines (parsePostContent plainPost) of [] \<Rightarrow> [] | l # _ \<Rightarrow> toLowerCase l)
     (toLowerCase (join (js '' '') (take 2 (lines (parsePostContent plainPost)))))
     HOOK_PATTERNS = []"
    unfolding l1 l2 by (rule plainPost_candidates)
  from detectHookType_earliest_best [of "parsePostContent plainPost", unfolded Let_def] empty
  show ?thesis by blast
qed

lemma statPost_lines: "lines (parsePostContent statPost) = [js ''million users by 2020'']"
  by (simp add: parsePostContent_def statPost_def Let_def trim_def rx_defs)

lemma statPost_firstLine:
  "(case lines (parsePostContent statPost) of [] \<Rightarrow> [] | l # _ \<Rightarrow> toLowerCase l)
     = js ''million users by 2020''"
  by (simp add: statPost_lines toLowerCase_def lowerUnit_def js_def)

lemma statPost_firstTwoLines:
  "toLowerCase (join (js '' '') (take 2 (lines (parsePostContent statPost))))
     = js ''million users by 2020''"
  by (simp add: statPost_lines toLowerCase_def lowerUnit_def js_def)

lemma statPost_hookLoop:
  "hookLoop (js ''million users by 2020'') (js ''million users by 2020'')
     \<lparr>dtype = NONE_hook, confidence = 0, matchedText = []\<rparr> HOOK_PATTERNS
   = \<lparr>dtype = STATISTIC, confidence = 9 / 10, matchedText = js ''million''\<rparr>"
  by (simp add: hookLoop_def hookTry_def matchEither_def HOOK_PATTERNS_def questionMarkAtEnd_def
        rx_defs)

lemma statPost_code:
  "detectHookType (parsePostContent statPost)
     = \<lparr>dtype = STATISTIC, confidence = 9 / 10, matchedText = js ''million''\<rparr>"
  unfolding detectHookType_def Let_def statPost_firstLine statPost_firstTwoLines statPost_hookLoop
  by (simp add: statPost_lines endsWith_def js_def)

lemma statPost_winners:
  "List.map_filter (spec_typeWinner (js ''million users by 2020'') (js ''million users by 2020''))
     HOOK_PATTERNS
   = [\<lparr>dtype = STATISTIC, confidence = 7 / 10, matchedText = js ''by 2020''\<rparr>]"
  by (simp add: spec_typeWinner_def ruleMatch_def matchEither_def HOOK_PATTERNS_def
        List.map_filter_simps questionMarkAtEnd_def rx_defs)

lemma statPost_spec:
  "spec_detectHookType (parsePostContent statPost)
     = \<lparr>dtype = STATISTIC, confidence = 7 / 10, matchedText = js ''by 2020''\<rparr>"
  unfolding spec_detectHookType_def Let_def statPost_firstLine statPost_firstTwoLines
    statPost_winners
  by (simp add: statPost_lines endsWith_def highest_def noHook_def js_def)

text \<open>
  C5 as stated: the first rule of a type that matches wins for the type. On the post
  \<open>million users by 2020\<close> the second STATISTIC rule matches at position 14 and the
  third at position 0: the code returns STATISTIC at 0.9, the stated rule gives 0.7.
\<close>

theorem first_rule_wins_counterexample:
  "confidence (detectHookType (parsePostContent statPost)) = 9 / 10
   \<and> confidence (spec_detectHookType (parsePostContent statPost)) = 7 / 10
   \<and> detectHookType (parsePostContent statPost) \<noteq> spec_detectHookType (parsePostContent statPost)"
  by (simp add: statPost_code statPost_spec)

end
